theory Spec2Isabelle
  imports Complex_Main "HOL-Library.AList"
begin

section \<open>Values, errors and constants\<close>

text \<open>
  The strategies compute with Python's \<^verbatim>\<open>Decimal\<close> (prices, balances, fees) and
  \<^verbatim>\<open>float\<close> (thresholds, ranges). Both are modelled by exact rationals: the
  development is about the formulas and the control flow of the strategies, not about
  the rounding of the 28-digit decimal context. Python \<^verbatim>\<open>int\<close> is \<open>int\<close>.

  Every \<^verbatim>\<open>raise\<close> of the source, and every exception a Python primitive can raise
  at a modelled place, is a value of \<open>error\<close>; a function that can raise returns
  \<open>error + 'a\<close> with \<open>Inl\<close> for the exception.
\<close>

datatype error =
    RanOutOfFunds
  | ThresholdOutOfBounds
  | PercentageThresholdOutOfBounds
  | ChainNotSet
  | DivisionByZero
  | IndexError
  | KeyError
  | ValueError
  | AttributeError
  | StopIteration
  | CollaboratorError

definition and_then :: "error + 'a \<Rightarrow> ('a \<Rightarrow> error + 'b) \<Rightarrow> error + 'b" where
  "and_then r f = (case r of Inl e \<Rightarrow> Inl e | Inr x \<Rightarrow> f x)"

definition py_div :: "rat \<Rightarrow> rat \<Rightarrow> error + rat" where
  "py_div a b = (if b = 0 then Inl DivisionByZero else Inr (a / b))"

text \<open>
  Modelled from the spec: the module \<^verbatim>\<open>constants\<close> (\<^verbatim>\<open>ONE\<close>,
  \<^verbatim>\<open>PERCENT_TO_DECIMAL\<close>) is imported by the sources but is not among them. The
  spec's formulas \<open>r = range_percent/100\<close> and \<open>(threshold_index+1)/division\<close> fix the two
  constants as the decimals 1 and 0.01.
\<close>

definition ONE :: rat where
  "ONE = 1"

definition PERCENT_TO_DECIMAL :: rat where
  "PERCENT_TO_DECIMAL = 1 / 100"

text \<open>
  A pandas \<^verbatim>\<open>Timestamp\<close>: its integer value in nanoseconds since the epoch and the
  two calendar properties the strategies read. \<^verbatim>\<open>Timestamp(0)\<close> is the epoch.
\<close>

record timestamp =
  value_ns :: int
  year :: int
  dayofyear :: int

definition Timestamp_0 :: timestamp where
  "Timestamp_0 = \<lparr>value_ns = 0, year = 1970, dayofyear = 1\<rparr>"

definition minutes_ns :: "int \<Rightarrow> int" where
  "minutes_ns m = m * 60 * 1000000000"

definition days_ns :: "int \<Rightarrow> int" where
  "days_ns d = d * 86400 * 1000000000"

section \<open>utils/strategy\_utils.py\<close>

text \<open>
  \<^verbatim>\<open>timestamp_to_key\<close> formats \<^verbatim>\<open>f"{year}-{dayofyear}"\<close>; the pair of the two
  integers stands for that string (the formatting is injective on pairs of integers
  with a non-negative day).
\<close>

definition timestamp_to_key :: "timestamp \<Rightarrow> int \<times> int" where
  "timestamp_to_key ts = (year ts, dayofyear ts)"

definition is_one_day_or_older :: "timestamp \<Rightarrow> timestamp \<Rightarrow> bool" where
  "is_one_day_or_older historical_timestamp current_timestamp =
     (let one_day = days_ns 1;
          time_difference = value_ns current_timestamp - value_ns historical_timestamp
      in time_difference \<ge> one_day)"

definition get_price_change_in_percentage :: "rat \<Rightarrow> rat \<Rightarrow> error + rat" where
  "get_price_change_in_percentage price_before price_now =
     (if price_before = 0 \<or> price_now = 0 then Inr 0
      else
        (let price_change = price_now - price_before
         in and_then (py_div price_change price_before)
              (\<lambda>q. Inr (q * 100))))"

definition get_lower_upper_price_for_symmetric_range :: "rat \<Rightarrow> rat \<Rightarrow> error + (rat \<times> rat)" where
  "get_lower_upper_price_for_symmetric_range range_in_percentage price =
     (let range_decimal = PERCENT_TO_DECIMAL * range_in_percentage
      in and_then (py_div price (ONE + range_decimal))
           (\<lambda>lower_quote_price.
              let upper_quote_price = price * (ONE + range_decimal)
              in Inr (lower_quote_price, upper_quote_price)))"

section \<open>The pool collaborator, the broker and the strategy state\<close>

datatype token = BaseToken | QuoteToken

datatype rebalance_direction = UP | DOWN

datatype position_info = PositionInfo (lower_tick: int) (upper_tick: int)

record position =
  liquidity :: int
  range_tag :: "rat option"

text \<open>
  What the strategies see of \<^verbatim>\<open>self.markets.default\<close> and \<^verbatim>\<open>self.broker\<close>: the
  names of the pool's two tokens and the pool's fee rate, the balances of the two tokens,
  the market status of the current bar, the open positions (a Python dict, in insertion
  order), and the rest of the pool simulator, which stays opaque.
\<close>

record 'p market =
  base_token_name :: string
  quote_token_name :: string
  pool_fee_rate :: rat
  assets :: "token \<Rightarrow> rat"
  status_price :: rat
  status_timestamp :: timestamp
  positions :: "(position_info \<times> position) list"
  pool :: 'p

text \<open>
  The operations of the pool simulator (the demeter library) that the strategies call.
  They are parameters of the model: any function, possibly failing, on the market.
\<close>

record 'p demeter =
  tick_to_price :: "'p market \<Rightarrow> int \<Rightarrow> rat"
  even_rebalance :: "rat \<Rightarrow> 'p market \<Rightarrow> error + 'p market"
  buy :: "rat \<Rightarrow> 'p market \<Rightarrow> error + 'p market"
  sell :: "rat \<Rightarrow> 'p market \<Rightarrow> error + 'p market"
  market_add_liquidity :: "rat \<Rightarrow> rat \<Rightarrow> rat option \<Rightarrow> rat option \<Rightarrow> 'p market
     \<Rightarrow> error + ((position_info \<times> rat \<times> rat \<times> int) \<times> 'p market)"
  market_remove_liquidity :: "position_info \<Rightarrow> int option \<Rightarrow> 'p market
     \<Rightarrow> error + ((rat \<times> rat) \<times> 'p market)"

record fee =
  swap_in :: rat
  liquidity_providing :: rat
  removing_liquidity :: rat

record fees_configuration =
  token :: token
  fee_rates :: "(int \<times> fee) list"

record operations_stats =
  rebalances_count :: int
  providing_lp_count :: int
  withdrawing_lp_count :: int
  rebalances_cost :: rat
  providing_lp_cost :: rat
  withdrawing_lp_cost :: rat

record account_status =
  as_timestamp :: timestamp
  base_in_position :: rat
  quote_in_position :: rat

text \<open>
  The members of demeter's \<^verbatim>\<open>ChainType\<close>: the two chains with an entry in
  \<^verbatim>\<open>chain_to_fees_dict\<close>, and any other one.
\<close>

datatype chain_type = Ethereum | Arbitrum | OtherChain

record 'p strategy =
  stats :: operations_stats
  current_range_low :: rat
  current_range_high :: rat
  initial_base_holdings :: rat
  initial_quote_holdings :: rat
  fees_configuration :: "fees_configuration option"
  chain :: "chain_type option"
  market :: "'p market"
  account_status :: "account_status list"

section \<open>strategies/brokkr\_strategy.py: fee charging\<close>

definition get_base_token :: "('p, 'z) strategy_scheme \<Rightarrow> token" where
  "get_base_token s = BaseToken"

definition get_quote_token :: "('p, 'z) strategy_scheme \<Rightarrow> token" where
  "get_quote_token s = QuoteToken"

definition set_balance :: "token \<Rightarrow> rat \<Rightarrow> ('p, 'z) strategy_scheme \<Rightarrow> ('p, 'z) strategy_scheme" where
  "set_balance t v s = s\<lparr>market := (market s)\<lparr>assets := (assets (market s))(t := v)\<rparr>\<rparr>"

definition balance :: "('p, 'z) strategy_scheme \<Rightarrow> token \<Rightarrow> rat" where
  "balance s t = assets (market s) t"

definition deduct_fee_from_balance ::
  "token \<Rightarrow> rat \<Rightarrow> bool \<Rightarrow> ('p, 'z) strategy_scheme \<Rightarrow> error + ((rat \<times> rat) \<times> ('p, 'z) strategy_scheme)" where
  "deduct_fee_from_balance tok amount is_fee_token_base_token s =
     (let s1 = set_balance tok (balance s tok - amount) s
      in if is_fee_token_base_token then Inr ((amount, 0), s1) else Inr ((0, amount), s1))"

definition pay_remaining_fee_in_quote_token ::
  "token \<Rightarrow> rat \<Rightarrow> rat \<Rightarrow> ('p, 'z) strategy_scheme \<Rightarrow> error + (rat \<times> ('p, 'z) strategy_scheme)" where
  "pay_remaining_fee_in_quote_token fee_token amount current_price s =
     and_then (py_div amount current_price)
       (\<lambda>fee_to_be_paid_in_quote_token.
          let available_amount_of_quote_token = balance s (get_quote_token s)
          in if available_amount_of_quote_token \<ge> fee_to_be_paid_in_quote_token then
               (let s1 = set_balance (get_quote_token s)
                           (balance s (get_quote_token s) - fee_to_be_paid_in_quote_token) s;
                    s2 = set_balance fee_token 0 s1
                in Inr (fee_to_be_paid_in_quote_token, s2))
             else Inl RanOutOfFunds)"

definition pay_remaining_fee_in_base_token ::
  "token \<Rightarrow> rat \<Rightarrow> rat \<Rightarrow> ('p, 'z) strategy_scheme \<Rightarrow> error + (rat \<times> ('p, 'z) strategy_scheme)" where
  "pay_remaining_fee_in_base_token fee_token amount current_price s =
     (let fee_to_be_paid_in_base_token = amount * current_price;
          available_amount_of_base_token = balance s (get_base_token s)
      in if available_amount_of_base_token \<ge> fee_to_be_paid_in_base_token then
           (let s1 = set_balance (get_base_token s)
                       (balance s (get_base_token s) - fee_to_be_paid_in_base_token) s;
                s2 = set_balance fee_token 0 s1
            in Inr (fee_to_be_paid_in_base_token, s2))
         else Inl RanOutOfFunds)"

definition substract_gas_fee_on_insufficient_fee_token_amount ::
  "token \<Rightarrow> rat \<Rightarrow> bool \<Rightarrow> ('p, 'z) strategy_scheme \<Rightarrow> error + ((rat \<times> rat) \<times> ('p, 'z) strategy_scheme)" where
  "substract_gas_fee_on_insufficient_fee_token_amount fee_token fee_amount is_fee_token_base_token s =
     (let current_price = status_price (market s);
          available_fee_token_balance = balance s fee_token;
          remaining_fee_to_be_paid = fee_amount - available_fee_token_balance
      in if is_fee_token_base_token then
           and_then (pay_remaining_fee_in_quote_token fee_token remaining_fee_to_be_paid current_price s)
             (\<lambda>(quote_token_spent, s1). Inr ((available_fee_token_balance, quote_token_spent), s1))
         else
           and_then (pay_remaining_fee_in_base_token fee_token remaining_fee_to_be_paid current_price s)
             (\<lambda>(base_token_spent, s1). Inr ((base_token_spent, available_fee_token_balance), s1)))"

definition substract_gas_fee ::
  "rat \<Rightarrow> ('p, 'z) strategy_scheme \<Rightarrow> error + ((rat \<times> rat) \<times> ('p, 'z) strategy_scheme)" where
  "substract_gas_fee fee_amount s =
     (case fees_configuration s of
        None \<Rightarrow> Inl AttributeError
      | Some fc \<Rightarrow>
          (let fee_token = token fc;
               fee_token_balance = balance s fee_token;
               is_fee_token_base_token = (fee_token = get_base_token s)
           in if fee_token_balance \<ge> fee_amount then
                deduct_fee_from_balance fee_token fee_amount is_fee_token_base_token s
              else
                substract_gas_fee_on_insufficient_fee_token_amount fee_token fee_amount
                  is_fee_token_base_token s))"

definition get_fee_rate_for_year :: "int \<Rightarrow> ('p, 'z) strategy_scheme \<Rightarrow> error + fee" where
  "get_fee_rate_for_year yr s =
     (case fees_configuration s of
        None \<Rightarrow> Inl AttributeError
      | Some fc \<Rightarrow>
          (case map_of (fee_rates fc) yr of
             Some configuration \<Rightarrow> Inr configuration
           | None \<Rightarrow>
               (case map fst (fee_rates fc) of
                  [] \<Rightarrow> Inl ValueError
                | k # ks \<Rightarrow>
                    (case map_of (fee_rates fc) (fold max ks k) of
                       Some configuration \<Rightarrow> Inr configuration
                     | None \<Rightarrow> Inl KeyError))))"

section \<open>config/fees.py and the choice of the fee configuration\<close>

definition mk_fee :: "rat \<Rightarrow> rat \<Rightarrow> rat \<Rightarrow> fee" where
  "mk_fee a b c = \<lparr>swap_in = a, liquidity_providing = b, removing_liquidity = c\<rparr>"

definition ethereum_fees_native :: "(int \<times> fee) list" where
  "ethereum_fees_native =
     [(2015, mk_fee (627367 / 100000000) (1886801 / 100000000) (1072989 / 100000000)),
      (2016, mk_fee (469774 / 100000000) (1412843 / 100000000) (803458 / 100000000)),
      (2017, mk_fee (336409 / 100000000) (1011747 / 100000000) (575361 / 100000000)),
      (2018, mk_fee (285333 / 100000000) (858136 / 100000000) (488006 / 100000000)),
      (2019, mk_fee (223397 / 100000000) (671864 / 100000000) (382077 / 100000000)),
      (2020, mk_fee (835881 / 100000000) (2513907 / 100000000) (1429612 / 100000000)),
      (2021, mk_fee (1450546 / 100000000) (4362507 / 100000000) (2480876 / 100000000)),
      (2022, mk_fee (670571 / 100000000) (2016738 / 100000000) (1146881 / 100000000)),
      (2023, mk_fee (512012 / 100000000) (1539873 / 100000000) (875697 / 100000000))]"

definition ethereum_fees_usdc :: "(int \<times> fee) list" where
  "ethereum_fees_usdc =
     [(2015, mk_fee (1148 / 100) (3453 / 100) (1964 / 100)),
      (2016, mk_fee (860 / 100) (2586 / 100) (1470 / 100)),
      (2017, mk_fee (616 / 100) (1851 / 100) (1053 / 100)),
      (2018, mk_fee (522 / 100) (1570 / 100) (893 / 100)),
      (2019, mk_fee (409 / 100) (1230 / 100) (699 / 100)),
      (2020, mk_fee (1530 / 100) (4600 / 100) (2616 / 100)),
      (2021, mk_fee (2654 / 100) (7983 / 100) (4540 / 100)),
      (2022, mk_fee (1227 / 100) (3691 / 100) (2099 / 100)),
      (2023, mk_fee (937 / 100) (2818 / 100) (1603 / 100))]"

definition arbitrum_fees_native :: "(int \<times> fee) list" where
  "arbitrum_fees_native =
     [(2015, mk_fee (7979 / 100000000) (13726 / 100000000) (11422 / 100000000))]"

definition arbitrum_fees_usdc :: "(int \<times> fee) list" where
  "arbitrum_fees_usdc = [(2015, mk_fee (15 / 100) (25 / 100) (21 / 100))]"

text \<open>
  \<^verbatim>\<open>chain_to_fees_dict[self.chain]\<close> raises \<^verbatim>\<open>KeyError\<close> for a chain without an entry.
\<close>

definition chain_to_fees_dict :: "chain_type \<Rightarrow> error + (string list \<times> (int \<times> fee) list) list" where
  "chain_to_fees_dict c =
     (case c of
        Ethereum \<Rightarrow> Inr [([''eth'', ''weth''], ethereum_fees_native),
                         ([''usd'', ''usdc''], ethereum_fees_usdc)]
      | Arbitrum \<Rightarrow> Inr [([''arb''], arbitrum_fees_native),
                         ([''usd'', ''usdc''], arbitrum_fees_usdc)]
      | OtherChain \<Rightarrow> Inl KeyError)"

text \<open>
  \<^verbatim>\<open>str.lower()\<close> on the ASCII letters, which is what token symbols consist of.
\<close>

definition lower_char :: "char \<Rightarrow> char" where
  "lower_char c =
     (let n = (of_char c :: nat) in if 65 \<le> n \<and> n \<le> 90 then char_of (n + 32) else c)"

definition lower :: "string \<Rightarrow> string" where
  "lower name = map lower_char name"

text \<open>
  The loop of \<^verbatim>\<open>get_fees_configuration\<close> over the entries of the chain: the first entry
  whose token names meet the pool's names decides. \<^verbatim>\<open>match.pop()\<close> takes an element of
  the intersection; when both pool tokens are in one entry Python may take either, and
  the model takes the first in the entry's order. Falling off the loop returns
  \<^verbatim>\<open>None\<close>.
\<close>

fun first_match ::
  "string \<Rightarrow> string \<Rightarrow> (string list \<times> (int \<times> fee) list) list \<Rightarrow> fees_configuration option" where
  "first_match base_name quote_name [] = None"
| "first_match base_name quote_name ((tokens, rates) # entries) =
     (case filter (\<lambda>t. t \<in> set [base_name, quote_name]) tokens of
        [] \<Rightarrow> first_match base_name quote_name entries
      | matched_token_name # others \<Rightarrow>
          Some \<lparr>token = (if base_name = matched_token_name then BaseToken else QuoteToken),
                fee_rates = rates\<rparr>)"

definition get_fees_configuration ::
  "('p, 'z) strategy_scheme \<Rightarrow> error + fees_configuration option" where
  "get_fees_configuration s =
     (case chain s of
        None \<Rightarrow> Inl AttributeError
      | Some c \<Rightarrow>
          and_then (chain_to_fees_dict c)
            (\<lambda>fees_configuration_for_current_chain.
               Inr (first_match (lower (base_token_name (market s)))
                      (lower (quote_token_name (market s)))
                      fees_configuration_for_current_chain)))"

text \<open>
  \<^verbatim>\<open>initialize\<close> ends with the abstract \<^verbatim>\<open>initialize_custom\<close> of the concrete strategy,
  which is an argument here.
\<close>

definition initialize ::
  "(('p, 'z) strategy_scheme \<Rightarrow> error + ('p, 'z) strategy_scheme)
   \<Rightarrow> ('p, 'z) strategy_scheme \<Rightarrow> error + ('p, 'z) strategy_scheme" where
  "initialize initialize_custom s =
     (if chain s = None then Inl ChainNotSet
      else
        and_then (get_fees_configuration s)
          (\<lambda>fc.
             let s1 = s\<lparr>fees_configuration := fc\<rparr>;
                 base_holdings = (1 - pool_fee_rate (market s1)) * assets (market s1) BaseToken / 2;
                 s2 = s1\<lparr>initial_base_holdings := base_holdings\<rparr>
             in and_then (py_div (initial_base_holdings s2) (status_price (market s2)))
                  (\<lambda>quote_holdings.
                     initialize_custom (s2\<lparr>initial_quote_holdings := quote_holdings\<rparr>))))"

section \<open>strategies/brokkr\_strategy.py: range checks\<close>

definition get_low_high_borders ::
  "'p demeter \<Rightarrow> position_info \<Rightarrow> ('p, 'z) strategy_scheme \<Rightarrow> rat \<times> rat" where
  "get_low_high_borders ops pos s =
     (let l = tick_to_price ops (market s) (lower_tick pos);
          h = tick_to_price ops (market s) (upper_tick pos)
      in (l, h))"

definition get_current_default_quote_token_market_price :: "('p, 'z) strategy_scheme \<Rightarrow> rat" where
  "get_current_default_quote_token_market_price s = status_price (market s)"

definition is_out_of_range :: "('p, 'z) strategy_scheme \<Rightarrow> error + bool" where
  "is_out_of_range s =
     (if account_status s = [] then Inl IndexError
      else
        (let current_account_status = last (account_status s);
             base_balance = base_in_position current_account_status;
             quote_balance = quote_in_position current_account_status
         in Inr (quote_balance \<le> 0 \<or> base_balance \<le> 0)))"

definition is_position_out_of_range ::
  "'p demeter \<Rightarrow> position_info \<Rightarrow> rat \<Rightarrow> ('p, 'z) strategy_scheme \<Rightarrow> error + bool" where
  "is_position_out_of_range ops pos out_of_range_percentage_threshold s =
     (case get_low_high_borders ops pos s of (lower_price, upper_price) \<Rightarrow>
        (let current_price = status_price (market s);
             position_price = (lower_price + upper_price) / 2
         in if out_of_range_percentage_threshold < 0 \<or> out_of_range_percentage_threshold > 100 then
              Inl PercentageThresholdOutOfBounds
            else if position_price = current_price then Inr False
            else if current_price < lower_price \<or> current_price > upper_price then Inr True
            else
              (let price_on_the_left_side_of_position = (current_price < position_price);
                   range_start = (if price_on_the_left_side_of_position then lower_price else position_price);
                   range_end = (if price_on_the_left_side_of_position then position_price else upper_price)
               in and_then (py_div (current_price - range_start) (range_end - range_start))
                    (\<lambda>q.
                       let out_of_range_level = q * 100;
                           out_of_range_level' =
                             (if price_on_the_left_side_of_position then 100 - out_of_range_level
                              else out_of_range_level)
                       in Inr (out_of_range_level' > out_of_range_percentage_threshold)))))"

text \<open>
  The guard of \<^verbatim>\<open>position_range_threshold_reached\<close> is the chained comparison
  \<^verbatim>\<open>100 > out_of_range_threshold_up < 0 or 100 > out_of_range_threshold_down < 0\<close>; Python
  reads \<^verbatim>\<open>a > b < c\<close> as \<^verbatim>\<open>a > b and b < c\<close>.
\<close>

definition position_range_threshold_reached ::
  "'p demeter \<Rightarrow> position_info \<Rightarrow> rat \<Rightarrow> rat \<Rightarrow> rat option \<Rightarrow> ('p, 'z) strategy_scheme \<Rightarrow> error + bool" where
  "position_range_threshold_reached ops pos out_of_range_threshold_up out_of_range_threshold_down
       position_start_price s =
     (case get_low_high_borders ops pos s of (lower_price, upper_price) \<Rightarrow>
        (let current_price = get_current_default_quote_token_market_price s;
             position_mid_price =
               (case position_start_price of
                  None \<Rightarrow> (lower_price + upper_price) / 2
                | Some p \<Rightarrow> p)
         in if (100 > out_of_range_threshold_up \<and> out_of_range_threshold_up < 0)
               \<or> (100 > out_of_range_threshold_down \<and> out_of_range_threshold_down < 0) then
              Inl ThresholdOutOfBounds
            else if position_mid_price = current_price then Inr False
            else if current_price < lower_price \<or> current_price > upper_price then Inr True
            else if current_price > position_mid_price then
              and_then (py_div (current_price - position_mid_price) (upper_price - position_mid_price))
                (\<lambda>q. let price_displacement_percent_up = q * 100
                      in Inr (price_displacement_percent_up \<ge> out_of_range_threshold_up))
            else
              and_then (py_div (position_mid_price - current_price) (position_mid_price - lower_price))
                (\<lambda>q. let price_displacement_percent_down = q * 100
                      in Inr (price_displacement_percent_down \<ge> out_of_range_threshold_down))))"

section \<open>strategies/brokkr\_strategy.py: the shared primitives\<close>

text \<open>
  \<^verbatim>\<open>on_successful_position_opened\<close> is overridden by strategy C, so the primitives that
  call it take the method as their first argument \<open>opened\<close>.
\<close>

definition on_successful_position_opened ::
  "timestamp \<Rightarrow> rat \<Rightarrow> rat \<Rightarrow> rebalance_direction option
     \<Rightarrow> ('p, 'z) strategy_scheme \<Rightarrow> ('p, 'z) strategy_scheme" where
  "on_successful_position_opened ts range_min range_max rebalance_dir s =
     s\<lparr>current_range_low := range_min, current_range_high := range_max\<rparr>"

definition get_rebalance_direction ::
  "'p demeter \<Rightarrow> position_info \<Rightarrow> 'p market \<Rightarrow> rat \<Rightarrow> rebalance_direction" where
  "get_rebalance_direction ops pos m current_price =
     (let price_low = tick_to_price ops m (lower_tick pos);
          price_high = tick_to_price ops m (upper_tick pos);
          diff_down = \<bar>current_price - price_low\<bar>;
          diff_up = \<bar>current_price - price_high\<bar>
      in if diff_up < diff_down then UP else DOWN)"

definition market_asymmetric_rebalance :: "'p demeter \<Rightarrow> rat \<Rightarrow> 'p market \<Rightarrow> error + 'p market" where
  "market_asymmetric_rebalance ops rebalancing_price m =
     (let quote_token_price = status_price m;
          total_capital = assets m BaseToken + assets m QuoteToken * quote_token_price;
          target_base_amount = total_capital / 2
      in and_then (py_div target_base_amount rebalancing_price)
           (\<lambda>q. let quote_amount_diff = q - assets m QuoteToken
                 in if quote_amount_diff > 0 then buy ops quote_amount_diff m
                    else if quote_amount_diff < 0 then sell ops (0 - quote_amount_diff) m
                    else Inr m))"

definition symmetrical_rebalance ::
  "'p demeter \<Rightarrow> rat \<Rightarrow> ('p, 'z) strategy_scheme \<Rightarrow> error + ('p, 'z) strategy_scheme" where
  "symmetrical_rebalance ops init_price s =
     and_then
       (case fees_configuration s of
          None \<Rightarrow> Inr s
        | Some fc \<Rightarrow>
            and_then (get_fee_rate_for_year (year (status_timestamp (market s))) s)
              (\<lambda>rate. let fee = swap_in rate
                       in and_then (substract_gas_fee fee s)
                            (\<lambda>(spent, s1).
                               Inr (s1\<lparr>stats := (stats s1)\<lparr>rebalances_cost :=
                                      rebalances_cost (stats s1) + fee\<rparr>\<rparr>))))
       (\<lambda>s2. and_then (even_rebalance ops init_price (market s2))
                (\<lambda>m. let s3 = s2\<lparr>market := m\<rparr>
                      in Inr (s3\<lparr>stats := (stats s3)\<lparr>rebalances_count :=
                                rebalances_count (stats s3) + 1\<rparr>\<rparr>)))"

definition asymmetrical_rebalance ::
  "'p demeter \<Rightarrow> rat \<Rightarrow> ('p, 'z) strategy_scheme \<Rightarrow> error + ('p, 'z) strategy_scheme" where
  "asymmetrical_rebalance ops init_price s =
     and_then
       (case fees_configuration s of
          None \<Rightarrow> Inr s
        | Some fc \<Rightarrow>
            and_then (get_fee_rate_for_year (year (status_timestamp (market s))) s)
              (\<lambda>rate. let fee = swap_in rate
                       in and_then (substract_gas_fee fee s)
                            (\<lambda>(spent, s1).
                               Inr (s1\<lparr>stats := (stats s1)\<lparr>rebalances_cost :=
                                      rebalances_cost (stats s1) + fee\<rparr>\<rparr>))))
       (\<lambda>s2. and_then (market_asymmetric_rebalance ops init_price (market s2))
                (\<lambda>m. let s3 = s2\<lparr>market := m\<rparr>
                      in Inr (s3\<lparr>stats := (stats s3)\<lparr>rebalances_count :=
                                rebalances_count (stats s3) + 1\<rparr>\<rparr>)))"

definition add_liquidity_custom_range ::
  "(timestamp \<Rightarrow> rat \<Rightarrow> rat \<Rightarrow> rebalance_direction option
      \<Rightarrow> ('p, 'z) strategy_scheme \<Rightarrow> ('p, 'z) strategy_scheme)
   \<Rightarrow> 'p demeter \<Rightarrow> rat \<Rightarrow> rat \<Rightarrow> rat option \<Rightarrow> rat option \<Rightarrow> rebalance_direction option
   \<Rightarrow> ('p, 'z) strategy_scheme
   \<Rightarrow> error + ((position_info \<times> rat \<times> rat \<times> int) \<times> ('p, 'z) strategy_scheme)" where
  "add_liquidity_custom_range opened ops lower_quote_price upper_quote_price base_max_amount
       quote_max_amount rebalance_dir s =
     and_then
       (case fees_configuration s of
          None \<Rightarrow> Inr ((0, 0), s)
        | Some fc \<Rightarrow>
            and_then (get_fee_rate_for_year (year (status_timestamp (market s))) s)
              (\<lambda>rate. let fee = liquidity_providing rate
                       in and_then (substract_gas_fee fee s)
                            (\<lambda>(spent, s1).
                               Inr (spent, s1\<lparr>stats := (stats s1)\<lparr>providing_lp_cost :=
                                             providing_lp_cost (stats s1) + fee\<rparr>\<rparr>))))
       (\<lambda>((base_spent_on_fees, quote_spent_on_fees), s2).
          and_then
            (market_add_liquidity ops lower_quote_price upper_quote_price
               (case base_max_amount of None \<Rightarrow> None | Some b \<Rightarrow> Some (b - base_spent_on_fees))
               (case quote_max_amount of None \<Rightarrow> None | Some q \<Rightarrow> Some (q - quote_spent_on_fees))
               (market s2))
            (\<lambda>(opened_position, m).
               let s3 = s2\<lparr>market := m\<rparr>;
                   s4 = s3\<lparr>stats := (stats s3)\<lparr>providing_lp_count :=
                              providing_lp_count (stats s3) + 1\<rparr>\<rparr>;
                   ts = status_timestamp (market s4);
                   s5 = opened ts lower_quote_price upper_quote_price rebalance_dir s4
               in Inr (opened_position, s5)))"

definition add_liquidity ::
  "(timestamp \<Rightarrow> rat \<Rightarrow> rat \<Rightarrow> rebalance_direction option
      \<Rightarrow> ('p, 'z) strategy_scheme \<Rightarrow> ('p, 'z) strategy_scheme)
   \<Rightarrow> 'p demeter \<Rightarrow> rat \<Rightarrow> rat option \<Rightarrow> rat option \<Rightarrow> rebalance_direction option \<Rightarrow> rat option
   \<Rightarrow> ('p, 'z) strategy_scheme
   \<Rightarrow> error + ((position_info \<times> rat \<times> rat \<times> int) \<times> ('p, 'z) strategy_scheme)" where
  "add_liquidity opened ops range_in_percentage base_max_amount quote_max_amount rebalance_dir
       init_price s =
     (let init_price' = (case init_price of None \<Rightarrow> status_price (market s) | Some p \<Rightarrow> p)
      in and_then (get_lower_upper_price_for_symmetric_range range_in_percentage init_price')
           (\<lambda>(lower_quote_price, upper_quote_price).
              and_then
                (add_liquidity_custom_range opened ops lower_quote_price upper_quote_price
                   base_max_amount quote_max_amount rebalance_dir s)
                (\<lambda>((new_position, base_token_used, quote_token_used, liq), s1).
                   case map_of (positions (market s1)) new_position of
                     None \<Rightarrow> Inl KeyError
                   | Some p \<Rightarrow>
                       Inr ((new_position, base_token_used, quote_token_used, liq),
                            s1\<lparr>market := (market s1)\<lparr>positions :=
                                 AList.update new_position (p\<lparr>range_tag := Some range_in_percentage\<rparr>)
                                   (positions (market s1))\<rparr>\<rparr>))))"

definition remove_liquidity ::
  "'p demeter \<Rightarrow> position_info \<Rightarrow> int option \<Rightarrow> ('p, 'z) strategy_scheme
   \<Rightarrow> error + ('p, 'z) strategy_scheme" where
  "remove_liquidity ops pos liq s =
     and_then (market_remove_liquidity ops pos liq (market s))
       (\<lambda>((base_received, quote_received), m).
          let s1 = s\<lparr>market := m\<rparr>;
              s2 = s1\<lparr>stats := (stats s1)\<lparr>withdrawing_lp_count :=
                         withdrawing_lp_count (stats s1) + 1\<rparr>\<rparr>
          in case fees_configuration s2 of
               None \<Rightarrow> Inr s2
             | Some fc \<Rightarrow>
                 and_then (get_fee_rate_for_year (year (status_timestamp (market s2))) s2)
                   (\<lambda>rate. let fee = removing_liquidity rate
                            in and_then (substract_gas_fee fee s2)
                                 (\<lambda>(spent, s3).
                                    Inr (s3\<lparr>stats := (stats s3)\<lparr>withdrawing_lp_cost :=
                                           withdrawing_lp_cost (stats s3) + fee\<rparr>\<rparr>))))"

fun remove_each ::
  "'p demeter \<Rightarrow> position_info list \<Rightarrow> ('p, 'z) strategy_scheme \<Rightarrow> error + ('p, 'z) strategy_scheme" where
  "remove_each ops [] s = Inr s"
| "remove_each ops (position_key # keys) s =
     and_then (remove_liquidity ops position_key None s) (remove_each ops keys)"

definition remove_all_liquidity ::
  "'p demeter \<Rightarrow> ('p, 'z) strategy_scheme \<Rightarrow> error + ('p, 'z) strategy_scheme" where
  "remove_all_liquidity ops s =
     (if length (positions (market s)) < 1 then Inr s
      else (let keys = map fst (positions (market s)) in remove_each ops keys s))"

definition rebalance_and_add_symmetric_liquidity ::
  "(timestamp \<Rightarrow> rat \<Rightarrow> rat \<Rightarrow> rebalance_direction option
      \<Rightarrow> ('p, 'z) strategy_scheme \<Rightarrow> ('p, 'z) strategy_scheme)
   \<Rightarrow> 'p demeter \<Rightarrow> rat \<Rightarrow> rat option \<Rightarrow> ('p, 'z) strategy_scheme
   \<Rightarrow> error + ((position_info \<times> rat \<times> rat \<times> int) \<times> ('p, 'z) strategy_scheme)" where
  "rebalance_and_add_symmetric_liquidity opened ops range_in_percentage init_price s =
     (let init_price' = (case init_price of None \<Rightarrow> status_price (market s) | Some p \<Rightarrow> p)
      in and_then
           (if positions (market s) \<noteq> [] then
              (let rebalance_dir =
                     get_rebalance_direction ops (fst (last (positions (market s)))) (market s) init_price'
               in and_then (remove_all_liquidity ops s) (\<lambda>s1. Inr (Some rebalance_dir, s1)))
            else Inr (None, s))
           (\<lambda>(rebalance_dir, s1).
              and_then (symmetrical_rebalance ops init_price' s1)
                (\<lambda>s2. add_liquidity opened ops range_in_percentage None None rebalance_dir None s2)))"

section \<open>strategies/brokkr\_strategy\_B.py\<close>

text \<open>
  \<^verbatim>\<open>day_to_rebalance_count\<close> is a dict from day keys to counts. \<^verbatim>\<open>can_rebalance\<close>
  is overridden by strategy C, so \<open>on_bar_custom\<close> takes it as an argument, as it takes
  \<open>opened\<close>.
\<close>

record 'p strategy_B = "'p strategy" +
  day_to_rebalance_count :: "int \<times> int \<Rightarrow> int option"
  max_range_active_since :: timestamp
  ranges :: "rat list"
  max_rebalances :: "int list"

definition initialize_custom_B ::
  "(timestamp \<Rightarrow> rat \<Rightarrow> rat \<Rightarrow> rebalance_direction option
      \<Rightarrow> ('p, 'z) strategy_B_scheme \<Rightarrow> ('p, 'z) strategy_B_scheme)
   \<Rightarrow> 'p demeter \<Rightarrow> ('p, 'z) strategy_B_scheme \<Rightarrow> error + ('p, 'z) strategy_B_scheme" where
  "initialize_custom_B opened ops s =
     (case ranges s of
        [] \<Rightarrow> Inl IndexError
      | r0 # rs \<Rightarrow>
          and_then (rebalance_and_add_symmetric_liquidity opened ops r0 None s)
            (\<lambda>(opened_position, s1). Inr s1))"

text \<open>
  The \<^verbatim>\<open>for i, range in enumerate(self.ranges)\<close> loop of \<^verbatim>\<open>on_rebalance_needed\<close>: it
  walks the ranges with the caps \<^verbatim>\<open>self.max_rebalances[i]\<close> and the running sum, and
  returns \<^verbatim>\<open>range_for_rebalance\<close>, which is \<open>-1\<close> when no tier is left.
\<close>

fun range_for_rebalance_loop :: "int \<Rightarrow> int \<Rightarrow> rat list \<Rightarrow> int list \<Rightarrow> error + rat" where
  "range_for_rebalance_loop rebalanced_count max_rebalances_sum [] caps = Inr (- 1)"
| "range_for_rebalance_loop rebalanced_count max_rebalances_sum (r # rs) [] = Inl IndexError"
| "range_for_rebalance_loop rebalanced_count max_rebalances_sum (r # rs) (max_rebalances_for_this_range # caps) =
     (let max_rebalances_sum' = max_rebalances_sum + max_rebalances_for_this_range
      in if rebalanced_count < max_rebalances_sum' then Inr r
         else range_for_rebalance_loop rebalanced_count max_rebalances_sum' rs caps)"

definition on_rebalance_needed ::
  "(timestamp \<Rightarrow> rat \<Rightarrow> rat \<Rightarrow> rebalance_direction option
      \<Rightarrow> ('p, 'z) strategy_B_scheme \<Rightarrow> ('p, 'z) strategy_B_scheme)
   \<Rightarrow> 'p demeter \<Rightarrow> timestamp \<Rightarrow> ('p, 'z) strategy_B_scheme \<Rightarrow> error + ('p, 'z) strategy_B_scheme" where
  "on_rebalance_needed opened ops ts s =
     (let key = timestamp_to_key ts;
          rebalanced_count = (case day_to_rebalance_count s key of None \<Rightarrow> 0 | Some c \<Rightarrow> c);
          s1 = s\<lparr>day_to_rebalance_count := (day_to_rebalance_count s)(key \<mapsto> rebalanced_count)\<rparr>
      in and_then (range_for_rebalance_loop rebalanced_count 0 (ranges s1) (max_rebalances s1))
           (\<lambda>range_for_rebalance.
              if range_for_rebalance < 0 then Inr s1
              else
                and_then (rebalance_and_add_symmetric_liquidity opened ops range_for_rebalance None s1)
                  (\<lambda>(opened_position, s2).
                     if ranges s2 = [] then Inl IndexError
                     else
                       (let s3 = (if range_for_rebalance = last (ranges s2)
                                  then s2\<lparr>max_range_active_since := ts\<rparr>
                                  else s2\<lparr>max_range_active_since := Timestamp_0\<rparr>)
                        in Inr (s3\<lparr>day_to_rebalance_count :=
                                  (day_to_rebalance_count s3)(key \<mapsto> rebalanced_count + 1)\<rparr>)))))"

definition widest_range_active_since_1d :: "('p, 'z) strategy_B_scheme \<Rightarrow> timestamp \<Rightarrow> bool" where
  "widest_range_active_since_1d s current_timestamp =
     (value_ns (max_range_active_since s) > 0
      \<and> is_one_day_or_older (max_range_active_since s) current_timestamp)"

definition handle_current_timestamp ::
  "(timestamp \<Rightarrow> rat \<Rightarrow> rat \<Rightarrow> rebalance_direction option
      \<Rightarrow> ('p, 'z) strategy_B_scheme \<Rightarrow> ('p, 'z) strategy_B_scheme)
   \<Rightarrow> 'p demeter \<Rightarrow> ('p, 'z) strategy_B_scheme \<Rightarrow> error + ('p, 'z) strategy_B_scheme" where
  "handle_current_timestamp opened ops s =
     (if account_status s = [] then Inl IndexError
      else
        (let current_timestamp = as_timestamp (last (account_status s))
         in if widest_range_active_since_1d s current_timestamp then
              (case ranges s of
                 [] \<Rightarrow> Inl IndexError
               | r0 # rs \<Rightarrow>
                   and_then (rebalance_and_add_symmetric_liquidity opened ops r0 None s)
                     (\<lambda>(opened_position, s1).
                        let key = timestamp_to_key current_timestamp;
                            s2 = s1\<lparr>max_range_active_since := Timestamp_0\<rparr>
                        in Inr (s2\<lparr>day_to_rebalance_count := (day_to_rebalance_count s2)(key \<mapsto> 0)\<rparr>)))
            else
              and_then (is_out_of_range s)
                (\<lambda>out. if out then on_rebalance_needed opened ops current_timestamp s else Inr s)))"

definition on_bar_custom ::
  "(('p, 'z) strategy_B_scheme \<Rightarrow> error + bool)
   \<Rightarrow> (timestamp \<Rightarrow> rat \<Rightarrow> rat \<Rightarrow> rebalance_direction option
      \<Rightarrow> ('p, 'z) strategy_B_scheme \<Rightarrow> ('p, 'z) strategy_B_scheme)
   \<Rightarrow> 'p demeter \<Rightarrow> ('p, 'z) strategy_B_scheme \<Rightarrow> error + ('p, 'z) strategy_B_scheme" where
  "on_bar_custom can_rebalance opened ops s =
     (if account_status s = [] then Inr s
      else
        and_then (can_rebalance s)
          (\<lambda>ok. if \<not> ok then Inr s else handle_current_timestamp opened ops s))"

definition can_rebalance_B :: "('p, 'z) strategy_B_scheme \<Rightarrow> error + bool" where
  "can_rebalance_B s = Inr True"

definition on_bar_custom_B ::
  "'p demeter \<Rightarrow> ('p, 'z) strategy_B_scheme \<Rightarrow> error + ('p, 'z) strategy_B_scheme" where
  "on_bar_custom_B ops s = on_bar_custom can_rebalance_B on_successful_position_opened ops s"

section \<open>strategies/brokkr\_strategy\_C.py\<close>

record 'p strategy_C = "'p strategy_B" +
  last_successful_rebalance :: timestamp
  min_time_between_rebalances_in_minutes :: int

definition on_successful_position_opened_C ::
  "timestamp \<Rightarrow> rat \<Rightarrow> rat \<Rightarrow> rebalance_direction option
     \<Rightarrow> ('p, 'z) strategy_C_scheme \<Rightarrow> ('p, 'z) strategy_C_scheme" where
  "on_successful_position_opened_C ts range_min range_max rebalance_dir s =
     (on_successful_position_opened ts range_min range_max rebalance_dir s)
       \<lparr>last_successful_rebalance := ts\<rparr>"

definition is_older_than :: "timestamp \<Rightarrow> timestamp \<Rightarrow> int \<Rightarrow> bool" where
  "is_older_than historical_timestamp current_timestamp minutes =
     (let duration = minutes_ns minutes;
          time_difference = value_ns current_timestamp - value_ns historical_timestamp
      in time_difference \<ge> duration)"

definition can_rebalance_C :: "('p, 'z) strategy_C_scheme \<Rightarrow> error + bool" where
  "can_rebalance_C s =
     (if account_status s = [] then Inl IndexError
      else
        (let current_timestamp = as_timestamp (last (account_status s));
             can_rebalance = is_older_than (last_successful_rebalance s) current_timestamp
                               (min_time_between_rebalances_in_minutes s)
         in Inr can_rebalance))"

definition on_bar_custom_C ::
  "'p demeter \<Rightarrow> ('p, 'z) strategy_C_scheme \<Rightarrow> error + ('p, 'z) strategy_C_scheme" where
  "on_bar_custom_C ops s = on_bar_custom can_rebalance_C on_successful_position_opened_C ops s"

section \<open>strategies/brokkr\_strategy\_partial\_rebalance.py\<close>

datatype price_threshold =
  PriceThreshold (index: int) (price: rat) (threshold_direction: rebalance_direction)

record partial_rebalance_data =
  threshold :: price_threshold
  liquidity_withdrawn :: rat
  withdraw_percent_decimal :: rat

text \<open>
  A \<^verbatim>\<open>PartialRebalancePosition\<close> also holds a reference to the market's position object,
  which the pool simulator updates in place; the model reads that object's liquidity
  through the market's positions (\<open>position_liquidity\<close> below). The simulator drops a
  position from its dict only when no liquidity is left in it.
\<close>

record partial_rebalance_position =
  division_price_points_up :: "price_threshold list"
  division_price_points_down :: "price_threshold list"
  init_price :: rat
  last_partial_rebalance :: "partial_rebalance_data option"
  position_key :: position_info

record 'p strategy_partial = "'p strategy" +
  range_in_percentage :: rat
  division :: int
  division_threshold_percentage :: rat
  active_partial_rebalance_positions_dict :: "(position_info \<times> partial_rebalance_position) list"

text \<open>
  The constructor: \<^verbatim>\<open>division_threshold_percentage = range_in_percentage / division\<close>,
  and an empty dict of tracked positions.
\<close>

definition new_partial_rebalance :: "rat \<Rightarrow> int \<Rightarrow> 'p strategy \<Rightarrow> error + 'p strategy_partial" where
  "new_partial_rebalance range_percent d base =
     and_then (py_div range_percent (of_int d))
       (\<lambda>t. Inr (strategy.extend base (strategy_partial.fields range_percent d t [])))"


















section \<open>The bar loop\<close>

text \<open>
  The runner (demeter's actuator) sets the market status of the bar, calls the strategy's
  \<^verbatim>\<open>on_bar\<close>, and records an account status afterwards, so that during a bar
  \<^verbatim>\<open>self.account_status[-1]\<close> is the record of the bar before. A bar of the model carries
  what the runner supplies: the bar's price and timestamp, and the amounts in position
  that the recorded account status will show. \<^verbatim>\<open>BrokkrStrategy.on_bar\<close> calls the
  strategy's \<^verbatim>\<open>on_bar_custom\<close> and then appends to the reporting series, which no
  decision reads; \<open>run\<close> takes the \<^verbatim>\<open>on_bar_custom\<close> of the strategy and leaves the
  series out.
\<close>

record bar =
  bar_price :: rat
  bar_timestamp :: timestamp
  bar_base_in_position :: rat
  bar_quote_in_position :: rat

definition begin_bar :: "bar \<Rightarrow> ('p, 'z) strategy_scheme \<Rightarrow> ('p, 'z) strategy_scheme" where
  "begin_bar b s =
     s\<lparr>market := (market s)\<lparr>status_price := bar_price b, status_timestamp := bar_timestamp b\<rparr>\<rparr>"

definition end_bar :: "bar \<Rightarrow> ('p, 'z) strategy_scheme \<Rightarrow> ('p, 'z) strategy_scheme" where
  "end_bar b s =
     s\<lparr>account_status := account_status s @
         [\<lparr>as_timestamp = bar_timestamp b,
           base_in_position = bar_base_in_position b,
           quote_in_position = bar_quote_in_position b\<rparr>]\<rparr>"

fun run ::
  "(('p, 'z) strategy_scheme \<Rightarrow> error + ('p, 'z) strategy_scheme)
   \<Rightarrow> bar list \<Rightarrow> ('p, 'z) strategy_scheme \<Rightarrow> error + ('p, 'z) strategy_scheme" where
  "run on_bar [] s = Inr s"
| "run on_bar (b # bs) s =
     and_then (on_bar (begin_bar b s)) (\<lambda>s1. run on_bar bs (end_bar b s1))"

text \<open>
  The number of rebalances performed on the bars of one calendar day: the increase of
  \<^verbatim>\<open>stats.rebalances_count\<close> (the series \<^verbatim>\<open>rebalances_line\<close> records it bar by bar),
  summed over the bars whose timestamp has that day key.
\<close>

fun rebalances_on_day ::
  "(('p, 'z) strategy_scheme \<Rightarrow> error + ('p, 'z) strategy_scheme)
   \<Rightarrow> int \<times> int \<Rightarrow> bar list \<Rightarrow> ('p, 'z) strategy_scheme \<Rightarrow> error + int" where
  "rebalances_on_day on_bar key [] s = Inr 0"
| "rebalances_on_day on_bar key (b # bs) s =
     and_then (on_bar (begin_bar b s))
       (\<lambda>s1. and_then (rebalances_on_day on_bar key bs (end_bar b s1))
                (\<lambda>n. Inr ((if timestamp_to_key (bar_timestamp b) = key
                           then rebalances_count (stats s1) - rebalances_count (stats s)
                           else 0) + n)))"

section \<open>Quantities of the fee ledger and concrete inputs\<close>

definition other_token :: "token \<Rightarrow> token" where
  "other_token t = (case t of BaseToken \<Rightarrow> QuoteToken | QuoteToken \<Rightarrow> BaseToken)"

text \<open>
  The price is the price of the quote token in base tokens. The part of a fee that the
  fee token's balance does not cover, converted into the other token.
\<close>

definition converted_shortfall :: "token \<Rightarrow> rat \<Rightarrow> ('p, 'z) strategy_scheme \<Rightarrow> rat" where
  "converted_shortfall fee_token amount s =
     (case fee_token of
        BaseToken \<Rightarrow> (amount - balance s BaseToken) / status_price (market s)
      | QuoteToken \<Rightarrow> (amount - balance s QuoteToken) * status_price (market s))"



definition no_stats :: operations_stats where
  "no_stats = \<lparr>rebalances_count = 0, providing_lp_count = 0, withdrawing_lp_count = 0,
     rebalances_cost = 0, providing_lp_cost = 0, withdrawing_lp_cost = 0\<rparr>"

definition ledger_state :: "fees_configuration option \<Rightarrow> rat \<Rightarrow> rat \<Rightarrow> rat \<Rightarrow> unit strategy" where
  "ledger_state fees base_balance quote_balance current_price =
     \<lparr>stats = no_stats, current_range_low = 0, current_range_high = 0,
      initial_base_holdings = 0, initial_quote_holdings = 0,
      fees_configuration = fees, chain = Some Ethereum,
      market = \<lparr>base_token_name = ''USDC'', quote_token_name = ''WETH'', pool_fee_rate = 5 / 10000,
                assets = (\<lambda>t. case t of BaseToken \<Rightarrow> base_balance | QuoteToken \<Rightarrow> quote_balance),
                status_price = current_price, status_timestamp = Timestamp_0,
                positions = [], pool = ()\<rparr>,
      account_status = []\<rparr>"

definition fees_in :: "token \<Rightarrow> fees_configuration" where
  "fees_in t =
     \<lparr>token = t,
      fee_rates = [(2015, \<lparr>swap_in = 10, liquidity_providing = 10, removing_liquidity = 10\<rparr>)]\<rparr>"

text \<open>
  A small pool simulator for concrete runs: a tick is a whole price, swaps leave the
  balances alone, a position is keyed by its rounded bounds and holds one unit of
  liquidity per opening.
\<close>

definition toy_pool :: "unit demeter" where
  "toy_pool =
     \<lparr>tick_to_price = (\<lambda>m t. of_int t),
      even_rebalance = (\<lambda>p m. Inr m),
      buy = (\<lambda>a m. Inr m),
      sell = (\<lambda>a m. Inr m),
      market_add_liquidity =
        (\<lambda>lo hi base_max quote_max m.
           let k = PositionInfo \<lfloor>lo\<rfloor> \<lceil>hi\<rceil>;
               l = (case map_of (positions m) k of None \<Rightarrow> 0 | Some p \<Rightarrow> liquidity p)
           in Inr ((k, 0, 0, 1),
                   m\<lparr>positions := AList.update k \<lparr>liquidity = l + 1, range_tag = None\<rparr> (positions m)\<rparr>)),
      market_remove_liquidity =
        (\<lambda>k liq m.
           case map_of (positions m) k of
             None \<Rightarrow> Inl KeyError
           | Some p \<Rightarrow>
               (let n = (case liq of None \<Rightarrow> liquidity p | Some n \<Rightarrow> n);
                    remaining = liquidity p - n
                in Inr ((0, 0),
                        m\<lparr>positions :=
                            (if remaining = 0 then AList.delete k (positions m)
                             else AList.update k (p\<lparr>liquidity := remaining\<rparr>) (positions m))\<rparr>)))\<rparr>"

section \<open>Frames, counters and invariants used in the properties\<close>

text \<open>
  A function of the state is framed when the shared primitives, which write the market,
  the statistics and (through \<open>opened\<close>) the current range, leave it alone; a predicate is
  kept by \<open>opened\<close> when the method preserves it.
\<close>

definition base_frame :: "(('p, 'z) strategy_scheme \<Rightarrow> 'a) \<Rightarrow> bool" where
  "base_frame f \<longleftrightarrow>
     (\<forall>s m. f (s\<lparr>market := m\<rparr>) = f s) \<and> (\<forall>s x. f (s\<lparr>stats := x\<rparr>) = f s)"

definition hook_frame ::
  "(('p, 'z) strategy_scheme \<Rightarrow> 'a)
   \<Rightarrow> (timestamp \<Rightarrow> rat \<Rightarrow> rat \<Rightarrow> rebalance_direction option
        \<Rightarrow> ('p, 'z) strategy_scheme \<Rightarrow> ('p, 'z) strategy_scheme) \<Rightarrow> bool" where
  "hook_frame f opened \<longleftrightarrow> (\<forall>ts lo hi d s. f (opened ts lo hi d s) = f s)"

definition count_for :: "('p, 'z) strategy_B_scheme \<Rightarrow> int \<times> int \<Rightarrow> int" where
  "count_for s key = (case day_to_rebalance_count s key of None \<Rightarrow> 0 | Some c \<Rightarrow> c)"

definition ladder_frames ::
  "(timestamp \<Rightarrow> rat \<Rightarrow> rat \<Rightarrow> rebalance_direction option
      \<Rightarrow> ('p, 'z) strategy_B_scheme \<Rightarrow> ('p, 'z) strategy_B_scheme) \<Rightarrow> bool" where
  "ladder_frames opened \<longleftrightarrow>
     hook_frame stats opened \<and> hook_frame day_to_rebalance_count opened
     \<and> hook_frame ranges opened \<and> hook_frame max_rebalances opened"

definition ladder_outcome ::
  "('p, 'z) strategy_B_scheme \<Rightarrow> ('p, 'z) strategy_B_scheme \<Rightarrow> bool" where
  "ladder_outcome s s' =
     (let ts = as_timestamp (last (account_status s));
          key = timestamp_to_key ts;
          before = rebalances_count (stats s);
          after = rebalances_count (stats s')
      in (after = before \<and> (\<forall>k. count_for s' k = count_for s k))
       \<or> (after = before + 1 \<and> \<not> widest_range_active_since_1d s ts
            \<and> count_for s key < sum_list (max_rebalances s)
            \<and> day_to_rebalance_count s' = (day_to_rebalance_count s)(key \<mapsto> count_for s key + 1))
       \<or> (after = before + 1 \<and> widest_range_active_since_1d s ts
            \<and> day_to_rebalance_count s' = (day_to_rebalance_count s)(key \<mapsto> 0)))"

definition cost_free :: "('p, 'z) strategy_scheme \<Rightarrow> bool" where
  "cost_free s \<longleftrightarrow>
     fees_configuration s = None \<and> rebalances_cost (stats s) = 0
     \<and> providing_lp_cost (stats s) = 0 \<and> withdrawing_lp_cost (stats s) = 0"

definition hook_keeps ::
  "(('p, 'z) strategy_scheme \<Rightarrow> bool)
   \<Rightarrow> (timestamp \<Rightarrow> rat \<Rightarrow> rat \<Rightarrow> rebalance_direction option
        \<Rightarrow> ('p, 'z) strategy_scheme \<Rightarrow> ('p, 'z) strategy_scheme) \<Rightarrow> bool" where
  "hook_keeps P opened \<longleftrightarrow> (\<forall>ts lo hi d s. P s \<longrightarrow> P (opened ts lo hi d s))"


definition within_division :: "('p, 'z) strategy_partial_scheme \<Rightarrow> bool" where
  "within_division s \<longleftrightarrow>
     distinct (map fst (active_partial_rebalance_positions_dict s))
     \<and> int (length (active_partial_rebalance_positions_dict s)) \<le> division s"


section \<open>Concrete runs\<close>

text \<open>
  Timestamps of January 2023 (2023-01-01T00:00Z is 1672531200 seconds after the epoch), bars
  that leave the position in range or out of range, a ladder with the two tiers
  \<open>(2, 1)\<close> and \<open>(5, 1)\<close> on a pool without a fee configuration, a strategy C state inside
  its cooldown, and a partial-rebalance strategy with a range of 10 percent divided in 2.
\<close>

definition january_2023 :: "int \<Rightarrow> int \<Rightarrow> int \<Rightarrow> timestamp" where
  "january_2023 d h m =
     \<lparr>value_ns = 1672531200000000000 + days_ns (d - 1) + minutes_ns (60 * h + m),
      year = 2023, dayofyear = d\<rparr>"

definition quiet_bar :: "timestamp \<Rightarrow> bar" where
  "quiet_bar ts = \<lparr>bar_price = 100, bar_timestamp = ts,
     bar_base_in_position = 500, bar_quote_in_position = 5\<rparr>"

definition leaving_bar :: "timestamp \<Rightarrow> bar" where
  "leaving_bar ts = \<lparr>bar_price = 100, bar_timestamp = ts,
     bar_base_in_position = 0, bar_quote_in_position = 10\<rparr>"

definition ladder_start :: "unit strategy_B" where
  "ladder_start =
     \<lparr>stats = no_stats, current_range_low = 0, current_range_high = 0,
      initial_base_holdings = 0, initial_quote_holdings = 0,
      fees_configuration = None, chain = Some Arbitrum,
      market = \<lparr>base_token_name = ''DAI'', quote_token_name = ''GMX'', pool_fee_rate = 3 / 1000,
                assets = (\<lambda>t. case t of BaseToken \<Rightarrow> 1000 | QuoteToken \<Rightarrow> 0),
                status_price = 100, status_timestamp = january_2023 1 20 0,
                positions = [], pool = ()\<rparr>,
      account_status = [],
      day_to_rebalance_count = Map.empty,
      max_range_active_since = Timestamp_0,
      ranges = [2, 5],
      max_rebalances = [1, 1]\<rparr>"

definition ladder_bars :: "bar list" where
  "ladder_bars =
     [leaving_bar (january_2023 1 21 0),
      leaving_bar (january_2023 1 22 0),
      quiet_bar (january_2023 1 23 0),
      quiet_bar (january_2023 2 22 0),
      leaving_bar (january_2023 2 22 1),
      leaving_bar (january_2023 2 23 0),
      quiet_bar (january_2023 2 23 30)]"

definition cooldown_start :: "unit strategy_C" where
  "cooldown_start =
     strategy_B.extend
       (ladder_start
          \<lparr>market := (market ladder_start)\<lparr>status_timestamp := january_2023 1 20 31\<rparr>,
           account_status := [\<lparr>as_timestamp = january_2023 1 20 30,
                               base_in_position = 0, quote_in_position = 10\<rparr>]\<rparr>)
       (strategy_C.fields (january_2023 1 20 0) 60)"

definition partial_start :: "unit strategy_partial" where
  "partial_start =
     strategy.extend (ledger_state None 1000 0 100) (strategy_partial.fields 10 2 5 [])"



definition day_counts ::
  "error + ('p, 'z) strategy_B_scheme \<Rightarrow> error + (int \<times> int \<times> int)" where
  "day_counts r =
     and_then r (\<lambda>s. Inr (count_for s (2023, 1), count_for s (2023, 2),
                           rebalances_count (stats s)))"

definition stats_after :: "error + ('p, 'z) strategy_scheme \<Rightarrow> error + operations_stats" where
  "stats_after r = and_then r (\<lambda>s. Inr (stats s))"

section \<open>Properties: results and errors\<close>

lemma and_then_Inr [simp]: "and_then (Inr x) f = f x"
  by (simp add: and_then_def)

lemma and_then_Inl [simp]: "and_then (Inl e) f = Inl e"
  by (simp add: and_then_def)

lemma and_then_eq_Inr:
  "and_then r f = Inr y \<longleftrightarrow> (\<exists>x. r = Inr x \<and> f x = Inr y)"
  by (cases r) simp_all

section \<open>Properties: the fee ledger\<close>

lemma balance_set_balance [simp]:
  "balance (set_balance t v s) u = (if u = t then v else balance s u)"
  by (simp add: balance_def set_balance_def)

lemma price_set_balance [simp]:
  "status_price (market (set_balance t v s)) = status_price (market s)"
  by (simp add: set_balance_def)

lemma fees_set_balance [simp]:
  "fees_configuration (set_balance t v s) = fees_configuration s"
  by (simp add: set_balance_def)

lemma ledger_state_simps [simp]:
  "balance (ledger_state f b q p) BaseToken = b"
  "balance (ledger_state f b q p) QuoteToken = q"
  "status_price (market (ledger_state f b q p)) = p"
  "fees_configuration (ledger_state f b q p) = f"
  by (simp_all add: ledger_state_def balance_def)

lemma token_fees_in [simp]: "token (fees_in t) = t"
  by (simp add: fees_in_def)

lemma substract_gas_fee_sufficient:
  assumes "fees_configuration s = Some fc" and "amount \<le> balance s (token fc)"
  shows "substract_gas_fee amount s =
           Inr ((if token fc = BaseToken then (amount, 0) else (0, amount)),
                set_balance (token fc) (balance s (token fc) - amount) s)"
  using assms by (simp add: substract_gas_fee_def deduct_fee_from_balance_def get_base_token_def Let_def)

lemma substract_gas_fee_base_short:
  assumes "fees_configuration s = Some fc" and "token fc = BaseToken"
    and "balance s BaseToken < amount" and "status_price (market s) \<noteq> 0"
  shows "substract_gas_fee amount s =
           (if (amount - balance s BaseToken) / status_price (market s) \<le> balance s QuoteToken
            then Inr ((balance s BaseToken, (amount - balance s BaseToken) / status_price (market s)),
                      set_balance BaseToken 0
                        (set_balance QuoteToken
                           (balance s QuoteToken - (amount - balance s BaseToken) / status_price (market s)) s))
            else Inl RanOutOfFunds)"
  using assms
  by (simp add: substract_gas_fee_def substract_gas_fee_on_insufficient_fee_token_amount_def
      pay_remaining_fee_in_quote_token_def get_base_token_def get_quote_token_def py_div_def Let_def)

lemma substract_gas_fee_quote_short:
  assumes "fees_configuration s = Some fc" and "token fc = QuoteToken"
    and "balance s QuoteToken < amount"
  shows "substract_gas_fee amount s =
           (if (amount - balance s QuoteToken) * status_price (market s) \<le> balance s BaseToken
            then Inr (((amount - balance s QuoteToken) * status_price (market s), balance s QuoteToken),
                      set_balance QuoteToken 0
                        (set_balance BaseToken
                           (balance s BaseToken - (amount - balance s QuoteToken) * status_price (market s)) s))
            else Inl RanOutOfFunds)"
  using assms
  by (simp add: substract_gas_fee_def substract_gas_fee_on_insufficient_fee_token_amount_def
      pay_remaining_fee_in_base_token_def get_base_token_def get_quote_token_def Let_def)


text \<open>
  Claim C1. When the fee token's balance covers the fee, the whole amount is deducted from
  that balance only and the pair returned is \<open>(amount, 0)\<close> or \<open>(0, amount)\<close>. Otherwise,
  at a positive price and when the other balance covers the converted shortfall, the fee
  token's balance is spent entirely (set to 0) and the shortfall, divided by the price
  when the fee token is the base token and multiplied by it when it is the quote token,
  is deducted from the other balance. With the fee in the base token, amount 10, base
  balance 4, price 2 and quote balance 100, the charge returns \<open>(4, 3)\<close>.
\<close>

theorem fee_charge_split:
  "(fees_configuration s = Some fc \<and> amount \<le> balance s (token fc) \<longrightarrow>
      substract_gas_fee amount s =
        Inr ((case token fc of BaseToken \<Rightarrow> (amount, 0) | QuoteToken \<Rightarrow> (0, amount)),
             set_balance (token fc) (balance s (token fc) - amount) s))
   \<and> (fees_configuration s = Some fc \<and> 0 < status_price (market s)
        \<and> balance s (token fc) < amount
        \<and> converted_shortfall (token fc) amount s \<le> balance s (other_token (token fc)) \<longrightarrow>
      substract_gas_fee amount s =
        Inr ((case token fc of
                BaseToken \<Rightarrow> (balance s BaseToken, converted_shortfall BaseToken amount s)
              | QuoteToken \<Rightarrow> (converted_shortfall QuoteToken amount s, balance s QuoteToken)),
             set_balance (token fc) 0
               (set_balance (other_token (token fc))
                  (balance s (other_token (token fc)) - converted_shortfall (token fc) amount s) s)))
   \<and> (fees_configuration s = Some fc \<and> token fc = BaseToken \<and> balance s BaseToken = 4
        \<and> status_price (market s) = 2 \<and> balance s QuoteToken = 100 \<longrightarrow>
      (\<exists>s'. substract_gas_fee 10 s = Inr ((4, 3), s')
            \<and> balance s' BaseToken = 0 \<and> balance s' QuoteToken = 97))"
proof (intro conjI impI)
  assume "fees_configuration s = Some fc \<and> amount \<le> balance s (token fc)"
  then show "substract_gas_fee amount s =
        Inr ((case token fc of BaseToken \<Rightarrow> (amount, 0) | QuoteToken \<Rightarrow> (0, amount)),
             set_balance (token fc) (balance s (token fc) - amount) s)"
    by (cases "token fc") (simp_all add: substract_gas_fee_sufficient)
next
  assume a: "fees_configuration s = Some fc \<and> 0 < status_price (market s)
        \<and> balance s (token fc) < amount
        \<and> converted_shortfall (token fc) amount s \<le> balance s (other_token (token fc))"
  show "substract_gas_fee amount s =
        Inr ((case token fc of
                BaseToken \<Rightarrow> (balance s BaseToken, converted_shortfall BaseToken amount s)
              | QuoteToken \<Rightarrow> (converted_shortfall QuoteToken amount s, balance s QuoteToken)),
             set_balance (token fc) 0
               (set_balance (other_token (token fc))
                  (balance s (other_token (token fc)) - converted_shortfall (token fc) amount s) s))"
  proof (cases "token fc")
    case BaseToken
    with a show ?thesis
      by (simp add: substract_gas_fee_base_short converted_shortfall_def other_token_def)
  next
    case QuoteToken
    with a show ?thesis
      by (simp add: substract_gas_fee_quote_short converted_shortfall_def other_token_def)
  qed
next
  assume a: "fees_configuration s = Some fc \<and> token fc = BaseToken \<and> balance s BaseToken = 4
        \<and> status_price (market s) = 2 \<and> balance s QuoteToken = 100"
  then show "\<exists>s'. substract_gas_fee 10 s = Inr ((4, 3), s')
            \<and> balance s' BaseToken = 0 \<and> balance s' QuoteToken = 97"
    by (simp add: substract_gas_fee_base_short)
qed

text \<open>
  The three cases of C1 at concrete ledgers: a covered fee, a fee in the quote token paid
  partly in base tokens, and the scenario of the specification.
\<close>

theorem fee_charge_split_witness:
  "substract_gas_fee 10 (ledger_state (Some (fees_in BaseToken)) 25 100 2) =
     Inr ((10, 0), set_balance BaseToken 15 (ledger_state (Some (fees_in BaseToken)) 25 100 2))
   \<and> substract_gas_fee 10 (ledger_state (Some (fees_in QuoteToken)) 100 4 2) =
     Inr ((12, 4), set_balance QuoteToken 0
                     (set_balance BaseToken 88 (ledger_state (Some (fees_in QuoteToken)) 100 4 2)))
   \<and> (\<exists>s'. substract_gas_fee 10 (ledger_state (Some (fees_in BaseToken)) 4 100 2) = Inr ((4, 3), s')
          \<and> balance s' BaseToken = 0 \<and> balance s' QuoteToken = 97)"
  using fee_charge_split [of "ledger_state (Some (fees_in BaseToken)) 25 100 2" "fees_in BaseToken" 10]
    fee_charge_split [of "ledger_state (Some (fees_in QuoteToken)) 100 4 2" "fees_in QuoteToken" 10]
    fee_charge_split [of "ledger_state (Some (fees_in BaseToken)) 4 100 2" "fees_in BaseToken"]
  by (simp add: converted_shortfall_def other_token_def)








text \<open>
  Claim C10. The percentage price change is total: it never divides by zero, returns 0
  when either price is 0, and \<open>(price_now - price_before) / price_before * 100\<close> otherwise.
\<close>

theorem price_change_guarded:
  "get_price_change_in_percentage price_before price_now =
     Inr (if price_before = 0 \<or> price_now = 0 then 0
          else (price_now - price_before) / price_before * 100)"
  by (simp add: get_price_change_in_percentage_def py_div_def Let_def)

text \<open>
  C10 at concrete prices: a zero price on either side, and a rise from 100 to 110.
\<close>

theorem price_change_guarded_witness:
  "get_price_change_in_percentage 0 5 = Inr 0
   \<and> get_price_change_in_percentage 5 0 = Inr 0
   \<and> get_price_change_in_percentage 100 110 = Inr 10"
  using price_change_guarded [of 0 5] price_change_guarded [of 5 0]
    price_change_guarded [of 100 110]
  by simp




section \<open>Properties: the threshold guard\<close>

lemma threshold_guard_iff:
  "position_range_threshold_reached ops pos up down start s = Inl ThresholdOutOfBounds
     \<longleftrightarrow> up < 0 \<or> down < 0"
  by (auto simp: position_range_threshold_reached_def Let_def py_div_def
      get_current_default_quote_token_market_price_def split: prod.splits option.splits)

text \<open>
  Claim C3. The guard of \<^verbatim>\<open>position_range_threshold_reached\<close> raises exactly for a negative
  threshold (lemma \<open>threshold_guard_iff\<close>), so a threshold above 100 is accepted: with an
  up threshold of 150 the call returns a verdict, while the sibling check
  \<^verbatim>\<open>is_position_out_of_range\<close>, whose message states the same bounds, rejects 150.
\<close>

theorem threshold_above_100_accepted:
  "position_range_threshold_reached toy_pool (PositionInfo 90 110) 150 50 None
       (ledger_state None 0 0 105) = Inr False
   \<and> is_position_out_of_range toy_pool (PositionInfo 90 110) 150 (ledger_state None 0 0 105)
       = Inl PercentageThresholdOutOfBounds"
  by (simp add: position_range_threshold_reached_def is_position_out_of_range_def
      get_low_high_borders_def toy_pool_def ledger_state_def
      get_current_default_quote_token_market_price_def py_div_def Let_def)

section \<open>Properties: what the shared primitives leave alone\<close>

lemma frame_substract_gas_fee:
  assumes "base_frame f" and "substract_gas_fee amount s = Inr (x, s')"
  shows "f s' = f s"
  using assms
  by (auto simp: base_frame_def substract_gas_fee_def deduct_fee_from_balance_def
      substract_gas_fee_on_insufficient_fee_token_amount_def pay_remaining_fee_in_quote_token_def
      pay_remaining_fee_in_base_token_def set_balance_def Let_def and_then_eq_Inr py_div_def
      split: option.splits if_splits)

lemma frame_symmetrical_rebalance:
  assumes "base_frame f" and "symmetrical_rebalance ops p s = Inr s'"
  shows "f s' = f s"
  using assms(2) frame_substract_gas_fee [OF assms(1)] assms(1)
  by (auto simp: symmetrical_rebalance_def and_then_eq_Inr base_frame_def Let_def split: option.splits)

lemma frame_remove_liquidity:
  assumes "base_frame f" and "remove_liquidity ops pos liq s = Inr s'"
  shows "f s' = f s"
  using assms(2) frame_substract_gas_fee [OF assms(1)] assms(1)
  by (auto simp: remove_liquidity_def and_then_eq_Inr base_frame_def Let_def split: option.splits)

lemma frame_remove_each:
  assumes "base_frame f" and "remove_each ops keys s = Inr s'"
  shows "f s' = f s"
  using assms(2)
  by (induction keys arbitrary: s) (auto simp: and_then_eq_Inr frame_remove_liquidity [OF assms(1)])

lemma frame_remove_all_liquidity:
  assumes "base_frame f" and "remove_all_liquidity ops s = Inr s'"
  shows "f s' = f s"
  using assms(2) frame_remove_each [OF assms(1)]
  by (auto simp: remove_all_liquidity_def Let_def split: if_splits)

lemma frame_add_liquidity_custom_range:
  assumes "base_frame f" and "hook_frame f opened"
    and "add_liquidity_custom_range opened ops lo hi bm qm d s = Inr (x, s')"
  shows "f s' = f s"
  using assms(3) frame_substract_gas_fee [OF assms(1)] assms(1,2)
  by (auto simp: add_liquidity_custom_range_def and_then_eq_Inr base_frame_def hook_frame_def
      Let_def split: option.splits)

lemma frame_add_liquidity:
  assumes "base_frame f" and "hook_frame f opened"
    and "add_liquidity opened ops r bm qm d ip s = Inr (x, s')"
  shows "f s' = f s"
  using assms(3) frame_add_liquidity_custom_range [OF assms(1,2)] assms(1)
  by (auto simp: add_liquidity_def and_then_eq_Inr base_frame_def Let_def split: option.splits)

lemma frame_rebalance_and_add_symmetric_liquidity:
  assumes "base_frame f" and "hook_frame f opened"
    and "rebalance_and_add_symmetric_liquidity opened ops r ip s = Inr (x, s')"
  shows "f s' = f s"
proof -
  from assms(3) obtain d s1 s2 p where
    s1: "s1 = s \<or> remove_all_liquidity ops s = Inr s1"
    and s2: "symmetrical_rebalance ops p s1 = Inr s2"
    and s3: "add_liquidity opened ops r None None d None s2 = Inr (x, s')"
    by (auto simp: rebalance_and_add_symmetric_liquidity_def and_then_eq_Inr Let_def
        split: if_splits)
  from s1 have "f s1 = f s"
    using frame_remove_all_liquidity [OF assms(1)] by auto
  moreover from s2 have "f s2 = f s1"
    by (rule frame_symmetrical_rebalance [OF assms(1)])
  moreover from s3 have "f s' = f s2"
    by (rule frame_add_liquidity [OF assms(1,2)])
  ultimately show ?thesis by simp
qed

lemma stats_substract_gas_fee:
  assumes "substract_gas_fee amount s = Inr (x, s')"
  shows "stats s' = stats s"
  using assms
  by (auto simp: substract_gas_fee_def deduct_fee_from_balance_def
      substract_gas_fee_on_insufficient_fee_token_amount_def pay_remaining_fee_in_quote_token_def
      pay_remaining_fee_in_base_token_def set_balance_def Let_def and_then_eq_Inr py_div_def
      split: option.splits if_splits)

lemma count_symmetrical_rebalance:
  assumes "symmetrical_rebalance ops p s = Inr s'"
  shows "rebalances_count (stats s') = rebalances_count (stats s) + 1"
  using assms stats_substract_gas_fee
  by (fastforce simp: symmetrical_rebalance_def and_then_eq_Inr Let_def split: option.splits)

lemma count_remove_liquidity:
  assumes "remove_liquidity ops pos liq s = Inr s'"
  shows "rebalances_count (stats s') = rebalances_count (stats s)"
  using assms stats_substract_gas_fee
  by (fastforce simp: remove_liquidity_def and_then_eq_Inr Let_def split: option.splits)

lemma count_remove_each:
  assumes "remove_each ops keys s = Inr s'"
  shows "rebalances_count (stats s') = rebalances_count (stats s)"
  using assms
  by (induction keys arbitrary: s) (auto simp: and_then_eq_Inr count_remove_liquidity)

lemma count_remove_all_liquidity:
  assumes "remove_all_liquidity ops s = Inr s'"
  shows "rebalances_count (stats s') = rebalances_count (stats s)"
  using assms count_remove_each
  by (auto simp: remove_all_liquidity_def Let_def split: if_splits)

lemma count_add_liquidity_custom_range:
  assumes "hook_frame stats opened"
    and "add_liquidity_custom_range opened ops lo hi bm qm d s = Inr (x, s')"
  shows "rebalances_count (stats s') = rebalances_count (stats s)"
  using assms stats_substract_gas_fee
  by (fastforce simp: add_liquidity_custom_range_def and_then_eq_Inr hook_frame_def Let_def
      split: option.splits)

lemma count_add_liquidity:
  assumes "hook_frame stats opened"
    and "add_liquidity opened ops r bm qm d ip s = Inr (x, s')"
  shows "rebalances_count (stats s') = rebalances_count (stats s)"
  using assms(2) count_add_liquidity_custom_range [OF assms(1)]
  by (fastforce simp: add_liquidity_def and_then_eq_Inr Let_def split: option.splits)

lemma count_rebalance_and_add_symmetric_liquidity:
  assumes "hook_frame stats opened"
    and "rebalance_and_add_symmetric_liquidity opened ops r ip s = Inr (x, s')"
  shows "rebalances_count (stats s') = rebalances_count (stats s) + 1"
proof -
  from assms(2) obtain d s1 s2 p where
    s1: "s1 = s \<or> remove_all_liquidity ops s = Inr s1"
    and s2: "symmetrical_rebalance ops p s1 = Inr s2"
    and s3: "add_liquidity opened ops r None None d None s2 = Inr (x, s')"
    by (auto simp: rebalance_and_add_symmetric_liquidity_def and_then_eq_Inr Let_def
        split: if_splits)
  from s1 have "rebalances_count (stats s1) = rebalances_count (stats s)"
    using count_remove_all_liquidity by auto
  moreover from s2 have "rebalances_count (stats s2) = rebalances_count (stats s1) + 1"
    by (rule count_symmetrical_rebalance)
  moreover from s3 have "rebalances_count (stats s') = rebalances_count (stats s2)"
    by (rule count_add_liquidity [OF assms(1)])
  ultimately show ?thesis by simp
qed

lemma hook_frames_B [simp]:
  "hook_frame stats on_successful_position_opened"
  "hook_frame account_status on_successful_position_opened"
  "hook_frame day_to_rebalance_count on_successful_position_opened"
  "hook_frame max_range_active_since on_successful_position_opened"
  "hook_frame ranges on_successful_position_opened"
  "hook_frame max_rebalances on_successful_position_opened"
  by (simp_all add: hook_frame_def on_successful_position_opened_def)

lemma hook_frames_C [simp]:
  "hook_frame stats on_successful_position_opened_C"
  "hook_frame account_status on_successful_position_opened_C"
  "hook_frame day_to_rebalance_count on_successful_position_opened_C"
  "hook_frame max_range_active_since on_successful_position_opened_C"
  "hook_frame ranges on_successful_position_opened_C"
  "hook_frame max_rebalances on_successful_position_opened_C"
  by (simp_all add: hook_frame_def on_successful_position_opened_C_def
      on_successful_position_opened_def)

lemma base_frames [simp]:
  "base_frame account_status"
  "base_frame day_to_rebalance_count"
  "base_frame max_range_active_since"
  "base_frame ranges"
  "base_frame max_rebalances"
  by (simp_all add: base_frame_def)

lemma range_for_rebalance_loop_below_sum:
  assumes "range_for_rebalance_loop c acc rs caps = Inr r" and "\<not> r < 0"
    and "\<forall>m\<in>set caps. 0 \<le> m"
  shows "c < acc + sum_list caps"
  using assms
proof (induction c acc rs caps rule: range_for_rebalance_loop.induct)
  case (1 c acc caps)
  then show ?case by simp
next
  case (2 c acc r rs)
  then show ?case by simp
next
  case (3 c acc r' rs m caps)
  have nonneg: "0 \<le> sum_list caps"
    using 3(4) by (simp add: sum_list_nonneg)
  show ?case
  proof (cases "c < acc + m")
    case True
    with nonneg show ?thesis by simp
  next
    case False
    with 3 have "c < acc + m + sum_list caps"
      by (simp add: Let_def)
    then show ?thesis by (simp add: add.assoc)
  qed
qed

lemma rebalance_in_ladder:
  assumes "ladder_frames opened"
    and "rebalance_and_add_symmetric_liquidity opened ops r ip s = Inr (x, s')"
  shows "rebalances_count (stats s') = rebalances_count (stats s) + 1"
    and "day_to_rebalance_count s' = day_to_rebalance_count s"
    and "ranges s' = ranges s"
    and "max_rebalances s' = max_rebalances s"
  using assms count_rebalance_and_add_symmetric_liquidity [OF _ assms(2)]
    frame_rebalance_and_add_symmetric_liquidity [OF _ _ assms(2), of day_to_rebalance_count]
    frame_rebalance_and_add_symmetric_liquidity [OF _ _ assms(2), of ranges]
    frame_rebalance_and_add_symmetric_liquidity [OF _ _ assms(2), of max_rebalances]
  by (simp_all add: ladder_frames_def)

lemma on_rebalance_needed_outcome:
  fixes s :: "('a, 'b) strategy_B_scheme"
  assumes fr: "ladder_frames opened"
    and caps: "\<forall>m\<in>set (max_rebalances s). 0 \<le> m"
    and run: "on_rebalance_needed opened ops ts s = Inr s'"
  shows "ranges s' = ranges s \<and> max_rebalances s' = max_rebalances s
     \<and> ((rebalances_count (stats s') = rebalances_count (stats s)
          \<and> day_to_rebalance_count s' =
              (day_to_rebalance_count s)(timestamp_to_key ts \<mapsto> count_for s (timestamp_to_key ts)))
        \<or> (rebalances_count (stats s') = rebalances_count (stats s) + 1
          \<and> count_for s (timestamp_to_key ts) < sum_list (max_rebalances s)
          \<and> day_to_rebalance_count s' =
              (day_to_rebalance_count s)(timestamp_to_key ts \<mapsto> count_for s (timestamp_to_key ts) + 1)))"
proof -
  define key where "key = timestamp_to_key ts"
  define c where "c = count_for s key"
  define s1 where "s1 = s\<lparr>day_to_rebalance_count := (day_to_rebalance_count s)(key \<mapsto> c)\<rparr>"
  note defs = key_def c_def s1_def count_for_def
  show ?thesis
  proof (cases "range_for_rebalance_loop c 0 (ranges s) (max_rebalances s)")
    case (Inl e)
    with run show ?thesis
      by (simp add: on_rebalance_needed_def Let_def defs)
  next
    case loop: (Inr r)
    show ?thesis
    proof (cases "r < 0")
      case True
      with run loop have "s' = s1"
        by (simp add: on_rebalance_needed_def Let_def defs)
      then show ?thesis
        by (simp add: defs)
    next
      case False
      show ?thesis
      proof (cases "rebalance_and_add_symmetric_liquidity opened ops r None s1")
        case (Inl e)
        with run loop False show ?thesis
          by (simp add: on_rebalance_needed_def Let_def defs)
      next
        case (Inr res)
        obtain x s2 where res: "res = (x, s2)"
          by (cases res)
        note reb = Inr [unfolded res]
        note facts = rebalance_in_ladder [OF fr reb]
        have below: "c < sum_list (max_rebalances s)"
          using range_for_rebalance_loop_below_sum [OF loop False caps] by simp
        from run loop False reb
        have "day_to_rebalance_count s' = (day_to_rebalance_count s2)(key \<mapsto> c + 1)
              \<and> stats s' = stats s2 \<and> ranges s' = ranges s2
              \<and> max_rebalances s' = max_rebalances s2"
          by (auto simp: on_rebalance_needed_def Let_def defs split: if_splits)
        with facts below show ?thesis
          by (simp add: defs)
      qed
    qed
  qed
qed

lemma handle_current_timestamp_outcome:
  fixes s :: "('a, 'b) strategy_B_scheme"
  assumes fr: "ladder_frames opened"
    and caps: "\<forall>m\<in>set (max_rebalances s). 0 \<le> m"
    and run: "handle_current_timestamp opened ops s = Inr s'"
  shows "ranges s' = ranges s \<and> max_rebalances s' = max_rebalances s \<and> ladder_outcome s s'"
proof -
  define ts where "ts = as_timestamp (last (account_status s))"
  from run have nonempty: "account_status s \<noteq> []"
    by (auto simp: handle_current_timestamp_def split: if_splits)
  show ?thesis
  proof (cases "widest_range_active_since_1d s ts")
    case True
    with run nonempty obtain r0 rs x s1 where
      "ranges s = r0 # rs"
      and reb: "rebalance_and_add_symmetric_liquidity opened ops r0 None s = Inr (x, s1)"
      and s': "s' = s1\<lparr>max_range_active_since := Timestamp_0,
                 day_to_rebalance_count := (day_to_rebalance_count s1)(timestamp_to_key ts \<mapsto> 0)\<rparr>"
      by (auto simp: handle_current_timestamp_def Let_def ts_def and_then_eq_Inr
          split: list.splits)
    note facts = rebalance_in_ladder [OF fr reb]
    from s' facts True show ?thesis
      by (simp add: ladder_outcome_def Let_def ts_def)
  next
    case False
    show ?thesis
    proof (cases "is_out_of_range s = Inr True")
      case True
      with run nonempty False have "on_rebalance_needed opened ops ts s = Inr s'"
        by (simp add: handle_current_timestamp_def Let_def ts_def)
      from on_rebalance_needed_outcome [OF fr caps this]
      have same: "ranges s' = ranges s \<and> max_rebalances s' = max_rebalances s"
        and cases: "(rebalances_count (stats s') = rebalances_count (stats s)
            \<and> day_to_rebalance_count s' =
                (day_to_rebalance_count s)(timestamp_to_key ts \<mapsto> count_for s (timestamp_to_key ts)))
          \<or> (rebalances_count (stats s') = rebalances_count (stats s) + 1
            \<and> count_for s (timestamp_to_key ts) < sum_list (max_rebalances s)
            \<and> day_to_rebalance_count s' =
                (day_to_rebalance_count s)(timestamp_to_key ts \<mapsto> count_for s (timestamp_to_key ts) + 1))"
        by simp_all
      from cases show ?thesis
      proof
        assume skip: "rebalances_count (stats s') = rebalances_count (stats s)
            \<and> day_to_rebalance_count s' =
                (day_to_rebalance_count s)(timestamp_to_key ts \<mapsto> count_for s (timestamp_to_key ts))"
        then have "\<forall>k. count_for s' k = count_for s k"
          by (simp add: count_for_def)
        with skip same show ?thesis
          by (simp add: ladder_outcome_def Let_def)
      next
        assume "rebalances_count (stats s') = rebalances_count (stats s) + 1
            \<and> count_for s (timestamp_to_key ts) < sum_list (max_rebalances s)
            \<and> day_to_rebalance_count s' =
                (day_to_rebalance_count s)(timestamp_to_key ts \<mapsto> count_for s (timestamp_to_key ts) + 1)"
        with same False show ?thesis
          by (simp add: ladder_outcome_def Let_def ts_def)
      qed
    next
      case notout: False
      with run nonempty False have "s' = s"
        by (auto simp: handle_current_timestamp_def Let_def ts_def and_then_eq_Inr
            split: if_splits)
      then show ?thesis
        by (simp add: ladder_outcome_def Let_def)
    qed
  qed
qed

lemma on_bar_custom_outcome:
  fixes s :: "('a, 'b) strategy_B_scheme"
  assumes fr: "ladder_frames opened"
    and caps: "\<forall>m\<in>set (max_rebalances s). 0 \<le> m"
    and run: "on_bar_custom can_rebalance opened ops s = Inr s'"
  shows "ranges s' = ranges s \<and> max_rebalances s' = max_rebalances s \<and> ladder_outcome s s'"
proof (cases "s' = s")
  case True
  then show ?thesis
    by (simp add: ladder_outcome_def Let_def)
next
  case False
  with run have "handle_current_timestamp opened ops s = Inr s'"
    by (auto simp: on_bar_custom_def and_then_eq_Inr split: if_splits)
  from handle_current_timestamp_outcome [OF fr caps this] show ?thesis .
qed

lemma ladder_outcome_bounded:
  assumes "ladder_outcome s s'"
    and "\<forall>m\<in>set (max_rebalances s). 0 \<le> m"
    and "\<forall>k. count_for s k \<le> sum_list (max_rebalances s)"
  shows "\<forall>k. count_for s' k \<le> sum_list (max_rebalances s)"
proof -
  have "0 \<le> sum_list (max_rebalances s)"
    using assms(2) by (simp add: sum_list_nonneg)
  with assms(1,3) show ?thesis
    by (auto simp: ladder_outcome_def Let_def count_for_def)
qed

lemma ladder_frames_B [simp]: "ladder_frames on_successful_position_opened"
  by (simp add: ladder_frames_def)

lemma ladder_frames_C [simp]: "ladder_frames on_successful_position_opened_C"
  by (simp add: ladder_frames_def)

lemma count_for_begin_end_bar [simp]:
  "count_for (begin_bar b s) k = count_for s k"
  "count_for (end_bar b s) k = count_for s k"
  "max_rebalances (begin_bar b s) = max_rebalances s"
  "max_rebalances (end_bar b s) = max_rebalances s"
  by (simp_all add: count_for_def begin_bar_def end_bar_def)

lemma ladder_run_bounded:
  fixes s :: "('a, 'b) strategy_B_scheme"
  assumes fr: "ladder_frames opened"
    and run: "run (on_bar_custom can_rebalance opened ops) bars s = Inr s'"
    and caps: "\<forall>m\<in>set (max_rebalances s). 0 \<le> m"
    and inv: "\<forall>k. count_for s k \<le> sum_list (max_rebalances s)"
  shows "max_rebalances s' = max_rebalances s
         \<and> (\<forall>k. count_for s' k \<le> sum_list (max_rebalances s))"
  using run caps inv
proof (induction bars arbitrary: s)
  case Nil
  then show ?case by simp
next
  case (Cons b bs)
  from Cons.prems(1) obtain s1 where
    step: "on_bar_custom can_rebalance opened ops (begin_bar b s) = Inr s1"
    and rest: "run (on_bar_custom can_rebalance opened ops) bs (end_bar b s1) = Inr s'"
    by (auto simp: and_then_eq_Inr)
  have caps0: "\<forall>m\<in>set (max_rebalances (begin_bar b s)). 0 \<le> m"
    using Cons.prems(2) by simp
  from on_bar_custom_outcome [OF fr caps0 step]
  have same: "max_rebalances s1 = max_rebalances s" and out: "ladder_outcome (begin_bar b s) s1"
    by simp_all
  have "\<forall>k. count_for s1 k \<le> sum_list (max_rebalances (begin_bar b s))"
    using ladder_outcome_bounded [OF out caps0] Cons.prems(3) by simp
  then have inv1: "\<forall>k. count_for (end_bar b s1) k \<le> sum_list (max_rebalances (end_bar b s1))"
    using same by simp
  have caps1: "\<forall>m\<in>set (max_rebalances (end_bar b s1)). 0 \<le> m"
    using Cons.prems(2) same by simp
  from Cons.IH [OF rest caps1 inv1] same show ?case
    by simp
qed

section \<open>Properties: the cooldown of strategy C\<close>

lemma cooldown_blocks:
  assumes "account_status s \<noteq> []"
    and "value_ns (as_timestamp (last (account_status s))) - value_ns (last_successful_rebalance s)
           < minutes_ns (min_time_between_rebalances_in_minutes s)"
  shows "on_bar_custom_C ops s = Inr s"
  using assms
  by (simp add: on_bar_custom_C_def on_bar_custom_def can_rebalance_C_def is_older_than_def Let_def)

lemma opened_C_records_timestamp:
  assumes "add_liquidity_custom_range on_successful_position_opened_C ops lo hi bm qm d s = Inr (x, s')"
  shows "last_successful_rebalance s' = status_timestamp (market s')"
  using assms
  by (auto simp: add_liquidity_custom_range_def and_then_eq_Inr Let_def
      on_successful_position_opened_C_def on_successful_position_opened_def split: option.splits)

lemma add_liquidity_C_records_timestamp:
  assumes "add_liquidity on_successful_position_opened_C ops r bm qm d ip s = Inr (x, s')"
  shows "last_successful_rebalance s' = status_timestamp (market s')"
  using assms opened_C_records_timestamp
  by (fastforce simp: add_liquidity_def and_then_eq_Inr Let_def split: option.splits)

lemma rebalance_C_records_timestamp:
  assumes "rebalance_and_add_symmetric_liquidity on_successful_position_opened_C ops r ip s = Inr (x, s')"
  shows "last_successful_rebalance s' = status_timestamp (market s')"
proof -
  from assms obtain d s2 where
    "add_liquidity on_successful_position_opened_C ops r None None d None s2 = Inr (x, s')"
    by (auto simp: rebalance_and_add_symmetric_liquidity_def and_then_eq_Inr Let_def
        split: if_splits)
  then show ?thesis
    by (rule add_liquidity_C_records_timestamp)
qed

text \<open>
  Claim C8. On a bar whose timestamp is less than the configured minutes after the last
  successful rebalance, strategy C changes nothing: the state after the bar's decision is
  the state before it, so no rebalance is performed and the rebalance counter and the day
  counters are unchanged. (The account status that \<^verbatim>\<open>can_rebalance\<close> reads is never
  newer than the bar.) Every successful rebalance records the market's timestamp as the
  last successful rebalance.
\<close>

theorem cooldown_no_rebalance:
  "(value_ns (status_timestamp (market s)) - value_ns (last_successful_rebalance s)
       < minutes_ns (min_time_between_rebalances_in_minutes s)
     \<and> (account_status s \<noteq> [] \<longrightarrow>
          value_ns (as_timestamp (last (account_status s))) \<le> value_ns (status_timestamp (market s)))
     \<longrightarrow> on_bar_custom_C ops s = Inr s)
   \<and> (value_ns (bar_timestamp b) - value_ns (last_successful_rebalance s)
       < minutes_ns (min_time_between_rebalances_in_minutes s)
     \<and> (account_status s \<noteq> [] \<longrightarrow>
          value_ns (as_timestamp (last (account_status s))) \<le> value_ns (bar_timestamp b))
     \<longrightarrow> on_bar_custom_C ops (begin_bar b s) = Inr (begin_bar b s)
         \<and> rebalances_count (stats (begin_bar b s)) = rebalances_count (stats s)
         \<and> day_to_rebalance_count (begin_bar b s) = day_to_rebalance_count s)
   \<and> (\<forall>x s'. rebalance_and_add_symmetric_liquidity on_successful_position_opened_C ops r ip s
                 = Inr (x, s')
          \<longrightarrow> last_successful_rebalance s' = status_timestamp (market s'))"
proof (intro conjI impI allI)
  assume a: "value_ns (status_timestamp (market s)) - value_ns (last_successful_rebalance s)
       < minutes_ns (min_time_between_rebalances_in_minutes s)
     \<and> (account_status s \<noteq> [] \<longrightarrow>
          value_ns (as_timestamp (last (account_status s))) \<le> value_ns (status_timestamp (market s)))"
  show "on_bar_custom_C ops s = Inr s"
  proof (cases "account_status s = []")
    case True
    then show ?thesis
      by (simp add: on_bar_custom_C_def on_bar_custom_def)
  next
    case False
    with a show ?thesis
      by (intro cooldown_blocks) simp_all
  qed
next
  assume a: "value_ns (bar_timestamp b) - value_ns (last_successful_rebalance s)
       < minutes_ns (min_time_between_rebalances_in_minutes s)
     \<and> (account_status s \<noteq> [] \<longrightarrow>
          value_ns (as_timestamp (last (account_status s))) \<le> value_ns (bar_timestamp b))"
  show "on_bar_custom_C ops (begin_bar b s) = Inr (begin_bar b s)"
  proof (cases "account_status s = []")
    case True
    then show ?thesis
      by (simp add: on_bar_custom_C_def on_bar_custom_def begin_bar_def)
  next
    case False
    with a show ?thesis
      by (intro cooldown_blocks) (simp_all add: begin_bar_def)
  qed
  show "rebalances_count (stats (begin_bar b s)) = rebalances_count (stats s)"
    by (simp add: begin_bar_def)
  show "day_to_rebalance_count (begin_bar b s) = day_to_rebalance_count s"
    by (simp add: begin_bar_def)
next
  fix x s'
  assume "rebalance_and_add_symmetric_liquidity on_successful_position_opened_C ops r ip s = Inr (x, s')"
  then show "last_successful_rebalance s' = status_timestamp (market s')"
    by (rule rebalance_C_records_timestamp)
qed

section \<open>Properties: the zero-fee mode\<close>

lemma no_fees_symmetrical_rebalance:
  assumes "fees_configuration s = None"
  shows "symmetrical_rebalance ops p s =
           and_then (even_rebalance ops p (market s))
             (\<lambda>m. Inr (s\<lparr>market := m,
                         stats := (stats s)\<lparr>rebalances_count := rebalances_count (stats s) + 1\<rparr>\<rparr>))"
  using assms by (simp add: symmetrical_rebalance_def Let_def)

lemma no_fees_asymmetrical_rebalance:
  assumes "fees_configuration s = None"
  shows "asymmetrical_rebalance ops p s =
           and_then (market_asymmetric_rebalance ops p (market s))
             (\<lambda>m. Inr (s\<lparr>market := m,
                         stats := (stats s)\<lparr>rebalances_count := rebalances_count (stats s) + 1\<rparr>\<rparr>))"
  using assms by (simp add: asymmetrical_rebalance_def Let_def)

lemma no_fees_add_liquidity_custom_range:
  assumes "fees_configuration s = None"
  shows "add_liquidity_custom_range opened ops lo hi bm qm d s =
           and_then (market_add_liquidity ops lo hi bm qm (market s))
             (\<lambda>(x, m). Inr (x, opened (status_timestamp m) lo hi d
                                  (s\<lparr>market := m,
                                     stats := (stats s)\<lparr>providing_lp_count :=
                                                providing_lp_count (stats s) + 1\<rparr>\<rparr>)))"
proof -
  have "(case bm of None \<Rightarrow> None | Some b \<Rightarrow> Some (b - 0)) = bm"
    and "(case qm of None \<Rightarrow> None | Some q \<Rightarrow> Some (q - 0)) = qm"
    by (simp_all split: option.splits)
  with assms show ?thesis
    by (simp add: add_liquidity_custom_range_def Let_def)
qed

lemma no_fees_remove_liquidity:
  assumes "fees_configuration s = None"
  shows "remove_liquidity ops k liq s =
           and_then (market_remove_liquidity ops k liq (market s))
             (\<lambda>(x, m). Inr (s\<lparr>market := m,
                              stats := (stats s)\<lparr>withdrawing_lp_count :=
                                         withdrawing_lp_count (stats s) + 1\<rparr>\<rparr>))"
  using assms by (simp add: remove_liquidity_def Let_def split_def)

lemma cost_free_symmetrical_rebalance:
  assumes "cost_free s" and "symmetrical_rebalance ops p s = Inr s'"
  shows "cost_free s'"
  using assms
  by (auto simp: cost_free_def no_fees_symmetrical_rebalance and_then_eq_Inr)

lemma cost_free_remove_liquidity:
  assumes "cost_free s" and "remove_liquidity ops k liq s = Inr s'"
  shows "cost_free s'"
  using assms
  by (auto simp: cost_free_def no_fees_remove_liquidity and_then_eq_Inr)

lemma cost_free_remove_each:
  assumes "cost_free s" and "remove_each ops keys s = Inr s'"
  shows "cost_free s'"
  using assms
  by (induction keys arbitrary: s) (auto simp: and_then_eq_Inr dest: cost_free_remove_liquidity)

lemma cost_free_remove_all_liquidity:
  assumes "cost_free s" and "remove_all_liquidity ops s = Inr s'"
  shows "cost_free s'"
  using assms cost_free_remove_each
  by (auto simp: remove_all_liquidity_def Let_def split: if_splits)

lemma cost_free_add_liquidity_custom_range:
  assumes "hook_keeps cost_free opened" and "cost_free s"
    and "add_liquidity_custom_range opened ops lo hi bm qm d s = Inr (x, s')"
  shows "cost_free s'"
proof -
  from assms(2) have none: "fees_configuration s = None"
    by (simp add: cost_free_def)
  from assms(3) obtain m where
    s': "s' = opened (status_timestamp m) lo hi d
                (s\<lparr>market := m,
                   stats := (stats s)\<lparr>providing_lp_count := providing_lp_count (stats s) + 1\<rparr>\<rparr>)"
    unfolding no_fees_add_liquidity_custom_range [OF none]
    by (auto simp: and_then_eq_Inr)
  have "cost_free (s\<lparr>market := m,
                   stats := (stats s)\<lparr>providing_lp_count := providing_lp_count (stats s) + 1\<rparr>\<rparr>)"
    using assms(2) by (simp add: cost_free_def)
  with assms(1) s' show ?thesis
    by (simp add: hook_keeps_def)
qed

lemma cost_free_add_liquidity:
  assumes "hook_keeps cost_free opened" and "cost_free s"
    and "add_liquidity opened ops r bm qm d ip s = Inr (x, s')"
  shows "cost_free s'"
proof -
  from assms(3) have "\<exists>lo hi y s1 ps.
      add_liquidity_custom_range opened ops lo hi bm qm d s = Inr (y, s1)
      \<and> s' = s1\<lparr>market := (market s1)\<lparr>positions := ps\<rparr>\<rparr>"
    by (fastforce simp: add_liquidity_def and_then_eq_Inr Let_def split: option.splits)
  then obtain lo hi y s1 ps where
    "add_liquidity_custom_range opened ops lo hi bm qm d s = Inr (y, s1)"
    and "s' = s1\<lparr>market := (market s1)\<lparr>positions := ps\<rparr>\<rparr>"
    by blast
  with cost_free_add_liquidity_custom_range [OF assms(1,2)] show ?thesis
    by (auto simp: cost_free_def)
qed

lemma cost_free_rebalance_and_add_symmetric_liquidity:
  assumes "hook_keeps cost_free opened" and "cost_free s"
    and "rebalance_and_add_symmetric_liquidity opened ops r ip s = Inr (x, s')"
  shows "cost_free s'"
proof -
  from assms(3) obtain d s1 s2 p where
    s1: "s1 = s \<or> remove_all_liquidity ops s = Inr s1"
    and s2: "symmetrical_rebalance ops p s1 = Inr s2"
    and s3: "add_liquidity opened ops r None None d None s2 = Inr (x, s')"
    by (auto simp: rebalance_and_add_symmetric_liquidity_def and_then_eq_Inr Let_def
        split: if_splits)
  from s1 assms(2) have "cost_free s1"
    using cost_free_remove_all_liquidity by auto
  with s2 have "cost_free s2"
    using cost_free_symmetrical_rebalance by blast
  with s3 show ?thesis
    using cost_free_add_liquidity [OF assms(1)] by blast
qed

lemma hook_keeps_cost_free [simp]:
  "hook_keeps cost_free on_successful_position_opened"
  "hook_keeps cost_free on_successful_position_opened_C"
  by (simp_all add: hook_keeps_def cost_free_def on_successful_position_opened_def
      on_successful_position_opened_C_def)

lemma on_rebalance_needed_preserves:
  fixes s :: "('a, 'b) strategy_B_scheme"
  assumes reb: "\<And>r t x t'. P t \<Longrightarrow>
        rebalance_and_add_symmetric_liquidity opened ops r None t = Inr (x, t') \<Longrightarrow> P t'"
    and counts: "\<And>t f. P t \<Longrightarrow> P (t\<lparr>day_to_rebalance_count := f\<rparr>)"
    and since: "\<And>t g. P t \<Longrightarrow> P (t\<lparr>max_range_active_since := g\<rparr>)"
    and hold: "P s"
    and run: "on_rebalance_needed opened ops ts s = Inr s'"
  shows "P s'"
proof -
  define key where "key = timestamp_to_key ts"
  define c where "c = (case day_to_rebalance_count s key of None \<Rightarrow> 0 | Some c \<Rightarrow> c)"
  define s1 where "s1 = s\<lparr>day_to_rebalance_count := (day_to_rebalance_count s)(key \<mapsto> c)\<rparr>"
  note defs = key_def c_def s1_def
  have p1: "P s1"
    unfolding s1_def by (rule counts [OF hold])
  show ?thesis
  proof (cases "range_for_rebalance_loop c 0 (ranges s) (max_rebalances s)")
    case (Inl e)
    with run show ?thesis
      by (simp add: on_rebalance_needed_def Let_def defs)
  next
    case loop: (Inr r)
    show ?thesis
    proof (cases "r < 0")
      case True
      with run loop have "s' = s1"
        by (simp add: on_rebalance_needed_def Let_def defs)
      with p1 show ?thesis
        by simp
    next
      case False
      show ?thesis
      proof (cases "rebalance_and_add_symmetric_liquidity opened ops r None s1")
        case (Inl e)
        with run loop False show ?thesis
          by (simp add: on_rebalance_needed_def Let_def defs)
      next
        case (Inr res)
        obtain x s2 where res: "res = (x, s2)"
          by (cases res)
        note rebalanced = Inr [unfolded res]
        have p2: "P s2"
          by (rule reb [OF p1 rebalanced])
        from run loop False rebalanced
        have "\<exists>g f. s' = s2\<lparr>max_range_active_since := g, day_to_rebalance_count := f\<rparr>"
          by (auto simp: on_rebalance_needed_def Let_def defs split: if_splits)
        then obtain g f where "s' = s2\<lparr>max_range_active_since := g, day_to_rebalance_count := f\<rparr>"
          by blast
        with counts [OF since [OF p2]] show ?thesis
          by simp
      qed
    qed
  qed
qed

lemma handle_current_timestamp_preserves:
  fixes s :: "('a, 'b) strategy_B_scheme"
  assumes reb: "\<And>r t x t'. P t \<Longrightarrow>
        rebalance_and_add_symmetric_liquidity opened ops r None t = Inr (x, t') \<Longrightarrow> P t'"
    and counts: "\<And>t f. P t \<Longrightarrow> P (t\<lparr>day_to_rebalance_count := f\<rparr>)"
    and since: "\<And>t g. P t \<Longrightarrow> P (t\<lparr>max_range_active_since := g\<rparr>)"
    and hold: "P s"
    and run: "handle_current_timestamp opened ops s = Inr s'"
  shows "P s'"
proof -
  define ts where "ts = as_timestamp (last (account_status s))"
  from run have nonempty: "account_status s \<noteq> []"
    by (auto simp: handle_current_timestamp_def split: if_splits)
  show ?thesis
  proof (cases "widest_range_active_since_1d s ts")
    case True
    with run nonempty obtain r0 x s1 where
      rebalanced: "rebalance_and_add_symmetric_liquidity opened ops r0 None s = Inr (x, s1)"
      and s': "s' = s1\<lparr>max_range_active_since := Timestamp_0,
                 day_to_rebalance_count := (day_to_rebalance_count s1)(timestamp_to_key ts \<mapsto> 0)\<rparr>"
      by (auto simp: handle_current_timestamp_def Let_def ts_def and_then_eq_Inr
          split: list.splits)
    from counts [OF since [OF reb [OF hold rebalanced]]] s' show ?thesis
      by simp
  next
    case False
    show ?thesis
    proof (cases "is_out_of_range s = Inr True")
      case True
      with run nonempty False have "on_rebalance_needed opened ops ts s = Inr s'"
        by (simp add: handle_current_timestamp_def Let_def ts_def)
      from on_rebalance_needed_preserves [of P opened ops, OF reb counts since hold this]
      show ?thesis .
    next
      case notout: False
      with run nonempty False have "s' = s"
        by (auto simp: handle_current_timestamp_def Let_def ts_def and_then_eq_Inr
            split: if_splits)
      with hold show ?thesis
        by simp
    qed
  qed
qed

lemma on_bar_custom_preserves:
  fixes s :: "('a, 'b) strategy_B_scheme"
  assumes reb: "\<And>r t x t'. P t \<Longrightarrow>
        rebalance_and_add_symmetric_liquidity opened ops r None t = Inr (x, t') \<Longrightarrow> P t'"
    and counts: "\<And>t f. P t \<Longrightarrow> P (t\<lparr>day_to_rebalance_count := f\<rparr>)"
    and since: "\<And>t g. P t \<Longrightarrow> P (t\<lparr>max_range_active_since := g\<rparr>)"
    and hold: "P s"
    and run: "on_bar_custom can_rebalance opened ops s = Inr s'"
  shows "P s'"
proof (cases "s' = s")
  case True
  with hold show ?thesis by simp
next
  case False
  with run have "handle_current_timestamp opened ops s = Inr s'"
    by (auto simp: on_bar_custom_def and_then_eq_Inr split: if_splits)
  from handle_current_timestamp_preserves [of P opened ops, OF reb counts since hold this]
  show ?thesis .
qed

lemma cost_free_on_bar_custom:
  fixes s :: "('a, 'b) strategy_B_scheme"
  assumes hk: "hook_keeps cost_free opened" and cf: "cost_free s"
    and run: "on_bar_custom can_rebalance opened ops s = Inr s'"
  shows "cost_free s'"
proof (rule on_bar_custom_preserves [of cost_free opened ops, OF _ _ _ cf run])
  fix r and t :: "('a, 'b) strategy_B_scheme" and x t'
  assume "cost_free t" and "rebalance_and_add_symmetric_liquidity opened ops r None t = Inr (x, t')"
  then show "cost_free t'"
    by (rule cost_free_rebalance_and_add_symmetric_liquidity [OF hk])
next
  fix t :: "('a, 'b) strategy_B_scheme" and f
  assume "cost_free t"
  then show "cost_free (t\<lparr>day_to_rebalance_count := f\<rparr>)"
    by (simp add: cost_free_def)
next
  fix t :: "('a, 'b) strategy_B_scheme" and g
  assume "cost_free t"
  then show "cost_free (t\<lparr>max_range_active_since := g\<rparr>)"
    by (simp add: cost_free_def)
qed

lemma cost_free_bars [simp]:
  "cost_free (begin_bar b s) = cost_free s"
  "cost_free (end_bar b s) = cost_free s"
  by (simp_all add: cost_free_def begin_bar_def end_bar_def)

lemma run_preserves:
  assumes step: "\<And>t t'. P t \<Longrightarrow> on_bar t = Inr t' \<Longrightarrow> P t'"
    and bars: "\<And>b t. P t \<Longrightarrow> P (begin_bar b t) \<and> P (end_bar b t)"
    and hold: "P s"
    and run: "run on_bar bars s = Inr s'"
  shows "P s'"
  using run hold
proof (induction bars arbitrary: s)
  case Nil
  then show ?case by simp
next
  case (Cons b bs)
  from Cons.prems(1) obtain s1 where
    one: "on_bar (begin_bar b s) = Inr s1" and rest: "run on_bar bs (end_bar b s1) = Inr s'"
    by (auto simp: and_then_eq_Inr)
  have "P s1"
    using step [OF _ one] bars [OF Cons.prems(2)] by blast
  then have "P (end_bar b s1)"
    using bars by blast
  from Cons.IH [OF rest this] show ?case .
qed

lemma initialize_without_fees:
  assumes "chain s \<noteq> None" and "get_fees_configuration s = Inr None"
    and "status_price (market s) \<noteq> 0"
  shows "initialize init_custom s =
           init_custom
             (s\<lparr>fees_configuration := None,
                initial_base_holdings := (1 - pool_fee_rate (market s)) * assets (market s) BaseToken / 2,
                initial_quote_holdings :=
                  (1 - pool_fee_rate (market s)) * assets (market s) BaseToken / 2
                    / status_price (market s)\<rparr>)"
  using assms by (auto simp: initialize_def Let_def py_div_def)

lemma cost_free_run_ladder:
  fixes s :: "('a, 'b) strategy_B_scheme"
  assumes hk: "hook_keeps cost_free opened" and cf: "cost_free s"
    and run: "run (on_bar_custom can_rebalance opened ops) bars s = Inr s'"
  shows "cost_free s'"
proof (rule run_preserves [of cost_free "on_bar_custom can_rebalance opened ops", OF _ _ cf run])
  fix t t' :: "('a, 'b) strategy_B_scheme"
  assume "cost_free t" and "on_bar_custom can_rebalance opened ops t = Inr t'"
  then show "cost_free t'"
    by (rule cost_free_on_bar_custom [OF hk])
next
  fix b and t :: "('a, 'b) strategy_B_scheme"
  assume "cost_free t"
  then show "cost_free (begin_bar b t) \<and> cost_free (end_bar b t)"
    by simp
qed

text \<open>
  Claim C9. When the lookup of the fee configuration returns \<^verbatim>\<open>None\<close>, \<^verbatim>\<open>initialize\<close>
  goes on to the strategy's own initialisation with no fee configuration. Without a fee
  configuration each primitive hands the untouched market to the pool simulator, takes the
  market it returns, and adds one to its counter: no balance is changed by a fee, no cost
  field is changed, and the only errors are the simulator's. Over every run of the ladders
  B and C the fee configuration stays absent and the three cost fields stay 0.
\<close>

theorem zero_fee_mode:
  "(chain s \<noteq> None \<and> get_fees_configuration s = Inr None \<and> status_price (market s) \<noteq> 0 \<longrightarrow>
      initialize init_custom s =
        init_custom
          (s\<lparr>fees_configuration := None,
             initial_base_holdings := (1 - pool_fee_rate (market s)) * assets (market s) BaseToken / 2,
             initial_quote_holdings :=
               (1 - pool_fee_rate (market s)) * assets (market s) BaseToken / 2
                 / status_price (market s)\<rparr>))
   \<and> (fees_configuration s = None \<longrightarrow>
        symmetrical_rebalance ops p s =
          and_then (even_rebalance ops p (market s))
            (\<lambda>m. Inr (s\<lparr>market := m,
                        stats := (stats s)\<lparr>rebalances_count := rebalances_count (stats s) + 1\<rparr>\<rparr>))
        \<and> asymmetrical_rebalance ops p s =
          and_then (market_asymmetric_rebalance ops p (market s))
            (\<lambda>m. Inr (s\<lparr>market := m,
                        stats := (stats s)\<lparr>rebalances_count := rebalances_count (stats s) + 1\<rparr>\<rparr>))
        \<and> add_liquidity_custom_range opened ops lo hi base_max quote_max dir s =
          and_then (market_add_liquidity ops lo hi base_max quote_max (market s))
            (\<lambda>(x, m). Inr (x, opened (status_timestamp m) lo hi dir
                                 (s\<lparr>market := m,
                                    stats := (stats s)\<lparr>providing_lp_count :=
                                               providing_lp_count (stats s) + 1\<rparr>\<rparr>)))
        \<and> remove_liquidity ops k liq s =
          and_then (market_remove_liquidity ops k liq (market s))
            (\<lambda>(x, m). Inr (s\<lparr>market := m,
                             stats := (stats s)\<lparr>withdrawing_lp_count :=
                                        withdrawing_lp_count (stats s) + 1\<rparr>\<rparr>)))
   \<and> (cost_free sB \<longrightarrow>
        (\<forall>bars s'. run (on_bar_custom_B ops) bars sB = Inr s' \<longrightarrow> cost_free s'))
   \<and> (cost_free sC \<longrightarrow>
        (\<forall>bars s'. run (on_bar_custom_C ops) bars sC = Inr s' \<longrightarrow> cost_free s'))"
proof (intro conjI impI allI)
  assume "chain s \<noteq> None \<and> get_fees_configuration s = Inr None \<and> status_price (market s) \<noteq> 0"
  then show "initialize init_custom s =
        init_custom
          (s\<lparr>fees_configuration := None,
             initial_base_holdings := (1 - pool_fee_rate (market s)) * assets (market s) BaseToken / 2,
             initial_quote_holdings :=
               (1 - pool_fee_rate (market s)) * assets (market s) BaseToken / 2
                 / status_price (market s)\<rparr>)"
    by (simp add: initialize_without_fees)
next
  assume none: "fees_configuration s = None"
  show "symmetrical_rebalance ops p s =
          and_then (even_rebalance ops p (market s))
            (\<lambda>m. Inr (s\<lparr>market := m,
                        stats := (stats s)\<lparr>rebalances_count := rebalances_count (stats s) + 1\<rparr>\<rparr>))"
    by (rule no_fees_symmetrical_rebalance [OF none])
  show "asymmetrical_rebalance ops p s =
          and_then (market_asymmetric_rebalance ops p (market s))
            (\<lambda>m. Inr (s\<lparr>market := m,
                        stats := (stats s)\<lparr>rebalances_count := rebalances_count (stats s) + 1\<rparr>\<rparr>))"
    by (rule no_fees_asymmetrical_rebalance [OF none])
  show "add_liquidity_custom_range opened ops lo hi base_max quote_max dir s =
          and_then (market_add_liquidity ops lo hi base_max quote_max (market s))
            (\<lambda>(x, m). Inr (x, opened (status_timestamp m) lo hi dir
                                 (s\<lparr>market := m,
                                    stats := (stats s)\<lparr>providing_lp_count :=
                                               providing_lp_count (stats s) + 1\<rparr>\<rparr>)))"
    by (rule no_fees_add_liquidity_custom_range [OF none])
  show "remove_liquidity ops k liq s =
          and_then (market_remove_liquidity ops k liq (market s))
            (\<lambda>(x, m). Inr (s\<lparr>market := m,
                             stats := (stats s)\<lparr>withdrawing_lp_count :=
                                        withdrawing_lp_count (stats s) + 1\<rparr>\<rparr>))"
    by (rule no_fees_remove_liquidity [OF none])
next
  fix bars s'
  assume "cost_free sB" and "run (on_bar_custom_B ops) bars sB = Inr s'"
  then show "cost_free s'"
    unfolding on_bar_custom_B_def
    by (rule cost_free_run_ladder [OF hook_keeps_cost_free(1)])
next
  fix bars s'
  assume "cost_free sC" and "run (on_bar_custom_C ops) bars sC = Inr s'"
  then show "cost_free s'"
    unfolding on_bar_custom_C_def
    by (rule cost_free_run_ladder [OF hook_keeps_cost_free(2)])
qed

section \<open>Properties: the partial-rebalance strategy\<close>

lemma partial_frames [simp]:
  "base_frame active_partial_rebalance_positions_dict"
  "base_frame division"
  "base_frame range_in_percentage"
  "base_frame division_threshold_percentage"
  "hook_frame active_partial_rebalance_positions_dict on_successful_position_opened"
  "hook_frame division on_successful_position_opened"
  "hook_frame range_in_percentage on_successful_position_opened"
  "hook_frame division_threshold_percentage on_successful_position_opened"
  by (simp_all add: base_frame_def hook_frame_def on_successful_position_opened_def)











lemma within_division_bars [simp]:
  "within_division (begin_bar b s) = within_division s"
  "within_division (end_bar b s) = within_division s"
  "division (begin_bar b s) = division s"
  "division (end_bar b s) = division s"
  by (simp_all add: within_division_def begin_bar_def end_bar_def)






section \<open>Properties: the ladder and the concrete runs\<close>

text \<open>
  Claim C4, as the code has it. For the ladders B and C with non-negative caps, over every
  run the counter of every day key stays within the sum of the caps, and a bar either
  performs no rebalance and leaves every counter as it is, or performs one tier rebalance,
  which needs that day's counter below the sum and raises it by one, or performs the one
  rebalance of the widest-tier-active-for-a-day branch, which is not counted and sets the
  day's counter to 0.
\<close>

theorem ladder_counter_within_caps:
  "((\<forall>m\<in>set (max_rebalances sB). 0 \<le> m)
      \<and> (\<forall>k. count_for sB k \<le> sum_list (max_rebalances sB)) \<longrightarrow>
      (\<forall>bars s. run (on_bar_custom_B ops) bars sB = Inr s \<longrightarrow>
         (\<forall>k. count_for s k \<le> sum_list (max_rebalances sB)))
      \<and> (\<forall>s'. on_bar_custom_B ops sB = Inr s' \<longrightarrow> ladder_outcome sB s'))
   \<and> ((\<forall>m\<in>set (max_rebalances sC). 0 \<le> m)
      \<and> (\<forall>k. count_for sC k \<le> sum_list (max_rebalances sC)) \<longrightarrow>
      (\<forall>bars s. run (on_bar_custom_C ops') bars sC = Inr s \<longrightarrow>
         (\<forall>k. count_for s k \<le> sum_list (max_rebalances sC)))
      \<and> (\<forall>s'. on_bar_custom_C ops' sC = Inr s' \<longrightarrow> ladder_outcome sC s'))"
proof (intro conjI impI allI)
  fix bars s k
  assume a: "(\<forall>m\<in>set (max_rebalances sB). 0 \<le> m)
      \<and> (\<forall>k. count_for sB k \<le> sum_list (max_rebalances sB))"
    and r: "run (on_bar_custom_B ops) bars sB = Inr s"
  from ladder_run_bounded [OF ladder_frames_B r [unfolded on_bar_custom_B_def]] a
  show "count_for s k \<le> sum_list (max_rebalances sB)"
    by blast
next
  fix s'
  assume a: "(\<forall>m\<in>set (max_rebalances sB). 0 \<le> m)
      \<and> (\<forall>k. count_for sB k \<le> sum_list (max_rebalances sB))"
    and r: "on_bar_custom_B ops sB = Inr s'"
  from on_bar_custom_outcome [OF ladder_frames_B _ r [unfolded on_bar_custom_B_def]] a
  show "ladder_outcome sB s'"
    by simp
next
  fix bars s k
  assume a: "(\<forall>m\<in>set (max_rebalances sC). 0 \<le> m)
      \<and> (\<forall>k. count_for sC k \<le> sum_list (max_rebalances sC))"
    and r: "run (on_bar_custom_C ops') bars sC = Inr s"
  from ladder_run_bounded [OF ladder_frames_C r [unfolded on_bar_custom_C_def]] a
  show "count_for s k \<le> sum_list (max_rebalances sC)"
    by blast
next
  fix s'
  assume a: "(\<forall>m\<in>set (max_rebalances sC). 0 \<le> m)
      \<and> (\<forall>k. count_for sC k \<le> sum_list (max_rebalances sC))"
    and r: "on_bar_custom_C ops' sC = Inr s'"
  from on_bar_custom_outcome [OF ladder_frames_C _ r [unfolded on_bar_custom_C_def]] a
  show "ladder_outcome sC s'"
    by simp
qed

text \<open>
  C4 on the concrete ladder: after the seven bars both day counters are 2, the sum of the
  caps, and five rebalances were performed.
\<close>

theorem ladder_counter_within_caps_witness:
  "day_counts (run (on_bar_custom_B toy_pool) ladder_bars ladder_start) = Inr (2, 2, 5)
   \<and> sum_list (max_rebalances ladder_start) = 2"
proof -
  have caps: "\<forall>m\<in>set (max_rebalances ladder_start). 0 \<le> m"
    by (simp add: ladder_start_def)
  have fresh: "\<forall>k. count_for ladder_start k \<le> sum_list (max_rebalances ladder_start)"
    by (simp add: ladder_start_def count_for_def)
  have total: "sum_list (max_rebalances ladder_start) = 2"
    by (simp add: ladder_start_def)
  have evaluated: "day_counts (run (on_bar_custom_B toy_pool) ladder_bars ladder_start) = Inr (2, 2, 5)"
    by code_simp
  then obtain s where final: "run (on_bar_custom_B toy_pool) ladder_bars ladder_start = Inr s"
    by (auto simp: day_counts_def and_then_eq_Inr)
  from ladder_counter_within_caps [of ladder_start toy_pool] caps fresh final
  have "count_for s (2023, 2) \<le> sum_list (max_rebalances ladder_start)"
    by blast
  with evaluated total show ?thesis
    by simp
qed

text \<open>
  The claim C4 as stated fails: on the concrete ladder, initialised and run over the seven
  bars, three rebalances are performed on the bars of 2 January 2023 (the rebalance of the
  widest-tier branch and, the counter being reset, one for each tier), while the caps sum
  to 2.
\<close>

theorem ladder_day_exceeds_caps:
  "and_then (initialize (initialize_custom_B on_successful_position_opened toy_pool) ladder_start)
     (rebalances_on_day (on_bar_custom_B toy_pool) (2023, 2) ladder_bars) = Inr 3
   \<and> sum_list (max_rebalances ladder_start) = 2"
proof
  show "and_then (initialize (initialize_custom_B on_successful_position_opened toy_pool) ladder_start)
     (rebalances_on_day (on_bar_custom_B toy_pool) (2023, 2) ladder_bars) = Inr 3"
    by code_simp
  show "sum_list (max_rebalances ladder_start) = 2"
    by (simp add: ladder_start_def)
qed

text \<open>
  C8 at a concrete state: 31 minutes after a rebalance with a cooldown of 60 minutes and
  the position out of range, strategy C does nothing where strategy B rebalances.
\<close>

theorem cooldown_no_rebalance_witness:
  "on_bar_custom_C toy_pool cooldown_start = Inr cooldown_start
   \<and> and_then (on_bar_custom_B toy_pool cooldown_start) (\<lambda>s. Inr (rebalances_count (stats s))) = Inr 1"
proof
  have "value_ns (status_timestamp (market cooldown_start))
          - value_ns (last_successful_rebalance cooldown_start)
        < minutes_ns (min_time_between_rebalances_in_minutes cooldown_start)"
    by code_simp
  moreover have "value_ns (as_timestamp (last (account_status cooldown_start)))
        \<le> value_ns (status_timestamp (market cooldown_start))"
    by code_simp
  ultimately show "on_bar_custom_C toy_pool cooldown_start = Inr cooldown_start"
    using cooldown_no_rebalance [of cooldown_start toy_pool] by blast
  show "and_then (on_bar_custom_B toy_pool cooldown_start) (\<lambda>s. Inr (rebalances_count (stats s))) = Inr 1"
    by code_simp
qed

text \<open>
  C9 on the concrete ladder (an Arbitrum pool of DAI and GMX matches no fee entry): after
  initialisation and seven bars the counters are 6, 6 and 5 and the costs are 0.
\<close>

theorem zero_fee_mode_witness:
  "get_fees_configuration ladder_start = Inr None
   \<and> stats_after (and_then (initialize (initialize_custom_B on_successful_position_opened toy_pool)
                             ladder_start)
                   (run (on_bar_custom_B toy_pool) ladder_bars))
       = Inr \<lparr>rebalances_count = 6, providing_lp_count = 6, withdrawing_lp_count = 5,
              rebalances_cost = 0, providing_lp_cost = 0, withdrawing_lp_cost = 0\<rparr>"
proof -
  have lookup: "get_fees_configuration ladder_start = Inr None"
    by code_simp
  have evaluated: "stats_after (and_then (initialize (initialize_custom_B on_successful_position_opened toy_pool)
                             ladder_start)
                   (run (on_bar_custom_B toy_pool) ladder_bars))
       = Inr \<lparr>rebalances_count = 6, providing_lp_count = 6, withdrawing_lp_count = 5,
              rebalances_cost = 0, providing_lp_cost = 0, withdrawing_lp_cost = 0\<rparr>"
    by code_simp
  have "cost_free ladder_start"
    by (simp add: cost_free_def ladder_start_def no_stats_def)
  with zero_fee_mode [where sB = ladder_start and ops = toy_pool]
  have "\<forall>bars s'. run (on_bar_custom_B toy_pool) bars ladder_start = Inr s' \<longrightarrow> cost_free s'"
    by blast
  with lookup evaluated show ?thesis
    by simp
qed

lemma partial_start_constructed:
  "new_partial_rebalance 10 2 (ledger_state None 1000 0 100) = Inr partial_start"
  by (simp add: new_partial_rebalance_def py_div_def partial_start_def)



end
